theory Spec2Isabelle
  imports Main
begin

section \<open>Build targets\<close>

text \<open>
  \<^verbatim>\<open>RendererState.cpp\<close> is compiled in five variants, selected by the preprocessor
  symbols \<^verbatim>\<open>MAGNUM_TARGET_GLES\<close>, \<^verbatim>\<open>MAGNUM_TARGET_GLES2\<close> and
  \<^verbatim>\<open>MAGNUM_TARGET_WEBGL\<close>. The model carries the variant as a value and turns every
  \<^verbatim>\<open>#if\<close> into an \<open>if\<close> on it.
\<close>

datatype target = Desktop | GLES3 | GLES2 | WebGL2 | WebGL1

fun MAGNUM_TARGET_GLES :: "target \<Rightarrow> bool" where
  "MAGNUM_TARGET_GLES Desktop = False"
| "MAGNUM_TARGET_GLES _ = True"

fun MAGNUM_TARGET_GLES2 :: "target \<Rightarrow> bool" where
  "MAGNUM_TARGET_GLES2 GLES2 = True"
| "MAGNUM_TARGET_GLES2 WebGL1 = True"
| "MAGNUM_TARGET_GLES2 _ = False"

fun MAGNUM_TARGET_WEBGL :: "target \<Rightarrow> bool" where
  "MAGNUM_TARGET_WEBGL WebGL2 = True"
| "MAGNUM_TARGET_WEBGL WebGL1 = True"
| "MAGNUM_TARGET_WEBGL _ = False"

section \<open>Values handed to the apply functions\<close>

text \<open>
  \<^verbatim>\<open>Int\<close> is modelled as \<open>int\<close>: the code only copies and compares these values,
  it does no arithmetic on them.
\<close>

record Vector3i =
  x :: int
  y :: int
  z :: int

definition Vector3i_fill :: "int \<Rightarrow> Vector3i" where
  \<comment> \<open>\<^verbatim>\<open>Vector3i{v}\<close>: every component is \<open>v\<close>; \<^verbatim>\<open>Vector3i{}\<close> is \<open>Vector3i_fill 0\<close>.\<close>
  "Vector3i_fill v = \<lparr>x = v, y = v, z = v\<rparr>"

text \<open>
  Modelled from the spec: \<^verbatim>\<open>Magnum/PixelStorage.h\<close> is not among the sources. The
  requested configuration is a value with the four accessors the apply function reads;
  the compressed variant derives from it and adds the two block properties the code's
  comment calls unused. The default-constructed values are those the spec gives:
  alignment 4, everything else 0.
\<close>

record PixelStorage =
  alignment :: int
  rowLength :: int
  imageHeight :: int
  skip :: Vector3i

record CompressedPixelStorage = PixelStorage +
  compressedBlockSize :: Vector3i
  compressedBlockDataSize :: int

definition PixelStorage_default :: PixelStorage where
  "PixelStorage_default =
     \<lparr>alignment = 4, rowLength = 0, imageHeight = 0, skip = Vector3i_fill 0\<rparr>"

definition CompressedPixelStorage_default :: CompressedPixelStorage where
  "CompressedPixelStorage_default =
     \<lparr>alignment = 4, rowLength = 0, imageHeight = 0, skip = Vector3i_fill 0,
      compressedBlockSize = Vector3i_fill 0, compressedBlockDataSize = 0\<rparr>"

section \<open>Driver calls\<close>

datatype pname =
    GL_UNPACK_ALIGNMENT | GL_PACK_ALIGNMENT
  | GL_UNPACK_ROW_LENGTH | GL_PACK_ROW_LENGTH
  | GL_UNPACK_ROW_LENGTH_EXT | GL_PACK_ROW_LENGTH_NV
  | GL_UNPACK_IMAGE_HEIGHT | GL_PACK_IMAGE_HEIGHT
  | GL_UNPACK_SKIP_PIXELS | GL_PACK_SKIP_PIXELS
  | GL_UNPACK_SKIP_ROWS | GL_PACK_SKIP_ROWS
  | GL_UNPACK_SKIP_IMAGES | GL_PACK_SKIP_IMAGES
  | GL_UNPACK_COMPRESSED_BLOCK_WIDTH | GL_PACK_COMPRESSED_BLOCK_WIDTH
  | GL_UNPACK_COMPRESSED_BLOCK_HEIGHT | GL_PACK_COMPRESSED_BLOCK_HEIGHT
  | GL_UNPACK_COMPRESSED_BLOCK_DEPTH | GL_PACK_COMPRESSED_BLOCK_DEPTH
  | GL_UNPACK_COMPRESSED_BLOCK_SIZE | GL_PACK_COMPRESSED_BLOCK_SIZE

datatype gl_call = glPixelStorei pname int | glEnable nat

text \<open>
  A failed \<^verbatim>\<open>CORRADE_ASSERT\<close> prints its message and leaves the function (the process
  aborts unless assertions are built graceful); a failed \<^verbatim>\<open>CORRADE_INTERNAL_ASSERT\<close>
  always aborts. In both cases nothing after the assertion runs. The driver calls already
  issued and the cache writes already made stay as they are.
\<close>

datatype failure = Assert string | InternalAssert

section \<open>The cached pixel-transfer block\<close>

text \<open>
  Modelled from the spec: \<^verbatim>\<open>RendererState.h\<close> is not among the sources. The sentinel
  \<^verbatim>\<open>PixelStorage::DisengagedValue\<close> is the reserved negative number of the spec's data
  model, \<open>-1\<close>. The block \<^verbatim>\<open>RendererState::PixelStorage\<close> has the fields that its
  constructor, \<^verbatim>\<open>reset()\<close> and the apply functions name. A field that a target
  compiles out stays in the record; that target's code never reads or writes it.
\<close>

definition DisengagedValue :: int where
  "DisengagedValue = - 1"

record PixelStorageState =
  alignment :: int
  rowLength :: int
  imageHeight :: int
  skip :: Vector3i
  compressedBlockSize :: Vector3i
  compressedBlockDataSize :: int
  disengagedRowLength :: int
  disengagedBlockSize :: int

definition PixelStorageState_ctor :: "target \<Rightarrow> PixelStorageState \<Rightarrow> PixelStorageState" where
  \<comment> \<open>\<^verbatim>\<open>RendererState::PixelStorage::PixelStorage()\<close>. The argument is the storage the
      object is built in: members without an initializer keep what is there.\<close>
  "PixelStorageState_ctor t raw =
     (let s = raw\<lparr>alignment := 4\<rparr>;
          s = (if \<not> (MAGNUM_TARGET_GLES2 t \<and> MAGNUM_TARGET_WEBGL t)
               then s\<lparr>rowLength := 0\<rparr> else s);
          s = (if \<not> MAGNUM_TARGET_GLES2 t
               then s\<lparr>imageHeight := 0, skip := Vector3i_fill 0\<rparr> else s);
          s = (if \<not> MAGNUM_TARGET_GLES t
               then s\<lparr>compressedBlockSize := Vector3i_fill 0, compressedBlockDataSize := 0\<rparr>
               else s)
      in s)"

definition reset :: "target \<Rightarrow> PixelStorageState \<Rightarrow> PixelStorageState" where
  \<comment> \<open>\<^verbatim>\<open>RendererState::PixelStorage::reset()\<close>\<close>
  "reset t state =
     (let s = state\<lparr>alignment := DisengagedValue\<rparr>;
          s = (if \<not> (MAGNUM_TARGET_GLES2 t \<and> MAGNUM_TARGET_WEBGL t)
               then s\<lparr>rowLength := disengagedRowLength s\<rparr> else s);
          s = (if \<not> MAGNUM_TARGET_GLES2 t
               then s\<lparr>imageHeight := DisengagedValue, skip := Vector3i_fill DisengagedValue\<rparr>
               else s);
          s = (if \<not> MAGNUM_TARGET_GLES t
               then s\<lparr>compressedBlockSize := Vector3i_fill (disengagedBlockSize s),
                      compressedBlockDataSize := disengagedBlockSize s\<rparr>
               else s)
      in s)"

section \<open>Applying a pixel-transfer configuration\<close>

text \<open>
  The apply functions work on one of the two blocks of the renderer state. Each block of
  code of \<^verbatim>\<open>applyPixelStorageInternal\<close> is one step here: it takes the calls issued
  so far and the block, and returns them updated, with the failed assertion if there is
  one. \<open>andThen\<close> runs the next step only when no assertion has failed.
\<close>

type_synonym progress = "failure option \<times> gl_call list \<times> PixelStorageState"

definition andThen :: "progress \<Rightarrow> (gl_call list \<Rightarrow> PixelStorageState \<Rightarrow> progress) \<Rightarrow> progress" where
  "andThen p f = (case p of (None, calls, state) \<Rightarrow> f calls state | (Some e, calls, state) \<Rightarrow> (Some e, calls, state))"

definition applyAlignment :: "PixelStorage \<Rightarrow> bool \<Rightarrow> gl_call list \<Rightarrow> PixelStorageState \<Rightarrow> progress" where
  "applyAlignment storage isUnpack calls state =
     (if alignment state = DisengagedValue \<or> alignment state \<noteq> PixelStorage.alignment storage
      then (None,
            calls @ [glPixelStorei (if isUnpack then GL_UNPACK_ALIGNMENT else GL_PACK_ALIGNMENT)
                       (PixelStorage.alignment storage)],
            state\<lparr>alignment := PixelStorage.alignment storage\<rparr>)
      else (None, calls, state))"

definition applyRowLength :: "target \<Rightarrow> PixelStorage \<Rightarrow> bool \<Rightarrow> gl_call list \<Rightarrow> PixelStorageState \<Rightarrow> progress" where
  "applyRowLength t storage isUnpack calls state =
     (if \<not> (MAGNUM_TARGET_GLES2 t \<and> MAGNUM_TARGET_WEBGL t) then
        if rowLength state = DisengagedValue \<or> rowLength state \<noteq> PixelStorage.rowLength storage
        then (if \<not> MAGNUM_TARGET_GLES2 t then
                (None,
                 calls @ [glPixelStorei (if isUnpack then GL_UNPACK_ROW_LENGTH else GL_PACK_ROW_LENGTH)
                            (PixelStorage.rowLength storage)],
                 state\<lparr>rowLength := PixelStorage.rowLength storage\<rparr>)
              else if \<not> MAGNUM_TARGET_WEBGL t then
                (None,
                 calls @ [glPixelStorei (if isUnpack then GL_UNPACK_ROW_LENGTH_EXT else GL_PACK_ROW_LENGTH_NV)
                            (PixelStorage.rowLength storage)],
                 state\<lparr>rowLength := PixelStorage.rowLength storage\<rparr>)
              else (None, calls, state))
        else (None, calls, state)
      else if PixelStorage.rowLength storage \<noteq> 0
        then (Some (Assert ''GL: non-default PixelStorage::rowLength() is not supported in WebGL 1.0''),
              calls, state)
        else (None, calls, state))"

definition applyImageHeight :: "target \<Rightarrow> PixelStorage \<Rightarrow> bool \<Rightarrow> gl_call list \<Rightarrow> PixelStorageState \<Rightarrow> progress" where
  "applyImageHeight t storage isUnpack calls state =
     (if \<not> MAGNUM_TARGET_GLES2 t then
        if imageHeight state = DisengagedValue \<or> imageHeight state \<noteq> PixelStorage.imageHeight storage
        then (if \<not> MAGNUM_TARGET_GLES t then
                (None,
                 calls @ [glPixelStorei (if isUnpack then GL_UNPACK_IMAGE_HEIGHT else GL_PACK_IMAGE_HEIGHT)
                            (PixelStorage.imageHeight storage)],
                 state\<lparr>imageHeight := PixelStorage.imageHeight storage\<rparr>)
              else if isUnpack then
                (None,
                 calls @ [glPixelStorei GL_UNPACK_IMAGE_HEIGHT (PixelStorage.imageHeight storage)],
                 state\<lparr>imageHeight := PixelStorage.imageHeight storage\<rparr>)
              else if PixelStorage.imageHeight storage \<noteq> 0 then
                (Some (Assert ''GL: non-default PixelStorage::imageHeight() for pack is not supported in OpenGL ES''),
                 calls, state)
              else (None, calls, state))
        else (None, calls, state)
      else if PixelStorage.imageHeight storage \<noteq> 0
        then (Some (Assert ''GL: non-default PixelStorage::imageHeight() is not supported in OpenGL ES 2''),
              calls, state)
        else (None, calls, state))"

definition applySkipPixels :: "PixelStorage \<Rightarrow> bool \<Rightarrow> gl_call list \<Rightarrow> PixelStorageState \<Rightarrow> progress" where
  "applySkipPixels storage isUnpack calls state =
     (if x (skip state) = DisengagedValue \<or> x (skip state) \<noteq> x (PixelStorage.skip storage)
      then (None,
            calls @ [glPixelStorei (if isUnpack then GL_UNPACK_SKIP_PIXELS else GL_PACK_SKIP_PIXELS)
                       (x (PixelStorage.skip storage))],
            state\<lparr>skip := (skip state)\<lparr>x := x (PixelStorage.skip storage)\<rparr>\<rparr>)
      else (None, calls, state))"

definition applySkipRows :: "PixelStorage \<Rightarrow> bool \<Rightarrow> gl_call list \<Rightarrow> PixelStorageState \<Rightarrow> progress" where
  "applySkipRows storage isUnpack calls state =
     (if y (skip state) = DisengagedValue \<or> y (skip state) \<noteq> y (PixelStorage.skip storage)
      then (None,
            calls @ [glPixelStorei (if isUnpack then GL_UNPACK_SKIP_ROWS else GL_PACK_SKIP_ROWS)
                       (y (PixelStorage.skip storage))],
            state\<lparr>skip := (skip state)\<lparr>y := y (PixelStorage.skip storage)\<rparr>\<rparr>)
      else (None, calls, state))"

definition applySkipImages :: "target \<Rightarrow> PixelStorage \<Rightarrow> bool \<Rightarrow> gl_call list \<Rightarrow> PixelStorageState \<Rightarrow> progress" where
  "applySkipImages t storage isUnpack calls state =
     (if z (skip state) = DisengagedValue \<or> z (skip state) \<noteq> z (PixelStorage.skip storage)
      then (if \<not> MAGNUM_TARGET_GLES t then
              (None,
               calls @ [glPixelStorei (if isUnpack then GL_UNPACK_SKIP_IMAGES else GL_PACK_SKIP_IMAGES)
                          (z (PixelStorage.skip storage))],
               state\<lparr>skip := (skip state)\<lparr>z := z (PixelStorage.skip storage)\<rparr>\<rparr>)
            else if isUnpack then
              (None,
               calls @ [glPixelStorei GL_UNPACK_SKIP_IMAGES (z (PixelStorage.skip storage))],
               state\<lparr>skip := (skip state)\<lparr>z := z (PixelStorage.skip storage)\<rparr>\<rparr>)
            else if z (PixelStorage.skip storage) \<noteq> 0 then
              (Some (Assert ''GL: non-default PixelStorage::skip().z() for pack is not supported in OpenGL ES''),
               calls, state)
            else (None, calls, state))
      else (None, calls, state))"

definition applyPixelStorageBlock :: "target \<Rightarrow> PixelStorage \<Rightarrow> bool \<Rightarrow> gl_call list \<Rightarrow> PixelStorageState \<Rightarrow> progress" where
  \<comment> \<open>the body of \<^verbatim>\<open>applyPixelStorageInternal\<close> after \<^verbatim>\<open>state\<close> is bound\<close>
  "applyPixelStorageBlock t storage isUnpack calls state =
     andThen (andThen (applyAlignment storage isUnpack calls state)
                (applyRowLength t storage isUnpack))
       (\<lambda>calls state.
          andThen (applyImageHeight t storage isUnpack calls state)
            (\<lambda>calls state.
               if \<not> MAGNUM_TARGET_GLES2 t then
                 andThen (andThen (applySkipPixels storage isUnpack calls state)
                            (applySkipRows storage isUnpack))
                   (applySkipImages t storage isUnpack)
               else (None, calls, state)))"

definition applyCompressedBlockWidth :: "Vector3i \<Rightarrow> bool \<Rightarrow> gl_call list \<Rightarrow> PixelStorageState \<Rightarrow> progress" where
  "applyCompressedBlockWidth blockSize isUnpack calls state =
     (if x (compressedBlockSize state) = DisengagedValue \<or> x (compressedBlockSize state) \<noteq> x blockSize
      then (None,
            calls @ [glPixelStorei (if isUnpack then GL_UNPACK_COMPRESSED_BLOCK_WIDTH else GL_PACK_COMPRESSED_BLOCK_WIDTH)
                       (x blockSize)],
            state\<lparr>compressedBlockSize := (compressedBlockSize state)\<lparr>x := x blockSize\<rparr>\<rparr>)
      else (None, calls, state))"

definition applyCompressedBlockHeight :: "Vector3i \<Rightarrow> bool \<Rightarrow> gl_call list \<Rightarrow> PixelStorageState \<Rightarrow> progress" where
  "applyCompressedBlockHeight blockSize isUnpack calls state =
     (if y (compressedBlockSize state) = DisengagedValue \<or> y (compressedBlockSize state) \<noteq> y blockSize
      then (None,
            calls @ [glPixelStorei (if isUnpack then GL_UNPACK_COMPRESSED_BLOCK_HEIGHT else GL_PACK_COMPRESSED_BLOCK_HEIGHT)
                       (y blockSize)],
            state\<lparr>compressedBlockSize := (compressedBlockSize state)\<lparr>y := y blockSize\<rparr>\<rparr>)
      else (None, calls, state))"

definition applyCompressedBlockDepth :: "Vector3i \<Rightarrow> bool \<Rightarrow> gl_call list \<Rightarrow> PixelStorageState \<Rightarrow> progress" where
  "applyCompressedBlockDepth blockSize isUnpack calls state =
     (if z (compressedBlockSize state) = DisengagedValue \<or> z (compressedBlockSize state) \<noteq> z blockSize
      then (None,
            calls @ [glPixelStorei (if isUnpack then GL_UNPACK_COMPRESSED_BLOCK_DEPTH else GL_PACK_COMPRESSED_BLOCK_DEPTH)
                       (z blockSize)],
            state\<lparr>compressedBlockSize := (compressedBlockSize state)\<lparr>z := z blockSize\<rparr>\<rparr>)
      else (None, calls, state))"

definition applyCompressedBlockDataSize :: "int \<Rightarrow> bool \<Rightarrow> gl_call list \<Rightarrow> PixelStorageState \<Rightarrow> progress" where
  "applyCompressedBlockDataSize blockDataSize isUnpack calls state =
     (if compressedBlockDataSize state = DisengagedValue \<or> compressedBlockDataSize state \<noteq> blockDataSize
      then (None,
            calls @ [glPixelStorei (if isUnpack then GL_UNPACK_COMPRESSED_BLOCK_SIZE else GL_PACK_COMPRESSED_BLOCK_SIZE)
                       blockDataSize],
            state\<lparr>compressedBlockDataSize := blockDataSize\<rparr>)
      else (None, calls, state))"

definition applyCompressedBlock :: "CompressedPixelStorage \<Rightarrow> Vector3i \<Rightarrow> int \<Rightarrow> bool \<Rightarrow> gl_call list \<Rightarrow> PixelStorageState \<Rightarrow> progress" where
  \<comment> \<open>the guarded block that ends the desktop path of
      \<^verbatim>\<open>applyCompressedPixelStorageInternal\<close>\<close>
  "applyCompressedBlock storage blockSize blockDataSize isUnpack calls state =
     (if \<not> (PixelStorage.skip storage = Vector3i_fill 0 \<and> PixelStorage.rowLength storage = 0 \<and>
             PixelStorage.imageHeight storage = 0 \<and>
             compressedBlockSize state = Vector3i_fill 0 \<and> compressedBlockDataSize state = 0)
      then andThen (andThen (andThen (applyCompressedBlockWidth blockSize isUnpack calls state)
                               (applyCompressedBlockHeight blockSize isUnpack))
                      (applyCompressedBlockDepth blockSize isUnpack))
             (applyCompressedBlockDataSize blockDataSize isUnpack)
      else (None, calls, state))"

definition applyCompressedPixelStorageBlock :: "target \<Rightarrow> CompressedPixelStorage \<Rightarrow> Vector3i \<Rightarrow> int \<Rightarrow> bool \<Rightarrow> gl_call list \<Rightarrow> PixelStorageState \<Rightarrow> progress" where
  \<comment> \<open>\<^verbatim>\<open>applyCompressedPixelStorageInternal\<close> on the block of its direction\<close>
  "applyCompressedPixelStorageBlock t storage blockSize blockDataSize isUnpack calls state =
     (if MAGNUM_TARGET_GLES t then
        if storage \<noteq> CompressedPixelStorage_default
        then (Some (Assert ''GL: non-default CompressedPixelStorage parameters are not supported in OpenGL ES or WebGL''),
              calls, state)
        else applyPixelStorageBlock t PixelStorage_default isUnpack calls state
      else
        if \<not> (blockSize \<noteq> Vector3i_fill 0 \<and> blockDataSize \<noteq> 0)
        then (Some InternalAssert, calls, state)
        else andThen (applyPixelStorageBlock t (PixelStorage.truncate storage) isUnpack calls state)
               (applyCompressedBlock storage blockSize blockDataSize isUnpack))"

section \<open>The renderer state\<close>

datatype Extension =
    NV_depth_buffer_float | ARB_ES2_compatibility | ARB_robustness | EXT_robustness
  | EXT_unpack_subimage | NV_pack_subimage | ARB_compressed_texture_pixel_storage
  | OES_sample_shading | NV_polygon_mode | ANGLE_polygon_mode | WEBGL_polygon_mode
  | OtherExtension nat

datatype Version = GLES320 | OtherVersion nat

datatype DetectedDriver = Mesa | OtherDriver nat

datatype Flag = ForwardCompatible | OtherFlag nat

text \<open>
  The context is read through the queries the constructor makes. The context state
  passed to \<^verbatim>\<open>isCoreProfileInternal\<close> is opaque to this file.
\<close>

record 'cs Context =
  isExtensionSupported :: "Extension \<Rightarrow> bool"
  isVersionSupported :: "Version \<Rightarrow> bool"
  detectedDriver :: "DetectedDriver set"
  flags :: "Flag set"
  isDriverWorkaroundDisabled :: "string \<Rightarrow> bool"
  isCoreProfileInternal :: "'cs \<Rightarrow> bool"

text \<open>The functions a pointer of the renderer state can be bound to.\<close>

datatype EntryPoint =
    glClearDepthdNV | glDepthRangedNV
  | clearDepthfImplementationNV | depthRangefImplementationNV
  | glClearDepth | glDepthRange | glClearDepthf | glDepthRangef
  | clearDepthfImplementationDefault | depthRangefImplementationDefault
  | glGetGraphicsResetStatusARB | glGetGraphicsResetStatusEXT
  | graphicsResetStatusImplementationDefault
  | lineWidthRangeImplementationMesaForwardCompatible | lineWidthRangeImplementationDefault
  | glMinSampleShading | glMinSampleShadingOES
  | glPatchParameteri | glPatchParameteriEXT
  | glEnablei | glDisablei | glColorMaski | glBlendFunci | glBlendFuncSeparatei
  | glBlendEquationi | glBlendEquationSeparatei
  | glEnableiEXT | glDisableiEXT | glColorMaskiEXT | glBlendFunciEXT | glBlendFuncSeparateiEXT
  | glBlendEquationiEXT | glBlendEquationSeparateiEXT
  | glPolygonModeNV | glPolygonModeANGLE | glPolygonModeWEBGL

text \<open>
  A function pointer is \<open>Some\<close> entry point or \<open>None\<close> for \<^verbatim>\<open>nullptr\<close>. As for the
  block, a member that a target compiles out stays in the record and is not touched
  there.
\<close>

record RendererState =
  resetNotificationStrategy :: nat
  clearDepthImplementation :: "EntryPoint option"
  depthRangeImplementation :: "EntryPoint option"
  clearDepthfImplementation :: "EntryPoint option"
  depthRangefImplementation :: "EntryPoint option"
  graphicsResetStatusImplementation :: "EntryPoint option"
  lineWidthRangeImplementation :: "EntryPoint option"
  minSampleShadingImplementation :: "EntryPoint option"
  patchParameteriImplementation :: "EntryPoint option"
  enableiImplementation :: "EntryPoint option"
  disableiImplementation :: "EntryPoint option"
  colorMaskiImplementation :: "EntryPoint option"
  blendFunciImplementation :: "EntryPoint option"
  blendFuncSeparateiImplementation :: "EntryPoint option"
  blendEquationiImplementation :: "EntryPoint option"
  blendEquationSeparateiImplementation :: "EntryPoint option"
  polygonModeImplementation :: "EntryPoint option"
  unpackPixelStorage :: PixelStorageState
  packPixelStorage :: PixelStorageState

definition applyPixelStorageInternal :: "target \<Rightarrow> PixelStorage \<Rightarrow> bool \<Rightarrow> RendererState \<Rightarrow> failure option \<times> gl_call list \<times> RendererState" where
  \<comment> \<open>returns the failed assertion if any, the driver calls issued, and the renderer
      state with the block of the direction written back\<close>
  "applyPixelStorageInternal t storage isUnpack rs =
     (let state = (if isUnpack then unpackPixelStorage rs else packPixelStorage rs)
      in case applyPixelStorageBlock t storage isUnpack [] state of
           (e, calls, state') \<Rightarrow>
             (e, calls, if isUnpack then rs\<lparr>unpackPixelStorage := state'\<rparr>
                        else rs\<lparr>packPixelStorage := state'\<rparr>))"

definition applyCompressedPixelStorageInternal :: "target \<Rightarrow> CompressedPixelStorage \<Rightarrow> Vector3i \<Rightarrow> int \<Rightarrow> bool \<Rightarrow> RendererState \<Rightarrow> failure option \<times> gl_call list \<times> RendererState" where
  "applyCompressedPixelStorageInternal t storage blockSize blockDataSize isUnpack rs =
     (let state = (if isUnpack then unpackPixelStorage rs else packPixelStorage rs)
      in case applyCompressedPixelStorageBlock t storage blockSize blockDataSize isUnpack [] state of
           (e, calls, state') \<Rightarrow>
             (e, calls, if isUnpack then rs\<lparr>unpackPixelStorage := state'\<rparr>
                        else rs\<lparr>packPixelStorage := state'\<rparr>))"

section \<open>Construction of the renderer state\<close>

text \<open>
  The constructor is modelled block by block, in the order of the source. Each block
  takes the renderer state built so far and the extension-usage array (here the set of
  extensions marked as used) and returns them updated.
\<close>

type_synonym resolving = "RendererState \<times> Extension set"

definition resolveDepth :: "target \<Rightarrow> 'cs Context \<Rightarrow> resolving \<Rightarrow> resolving" where
  \<comment> \<open>depth clear value / range implementation\<close>
  "resolveDepth t context = (\<lambda>(rs, extensions).
     if \<not> MAGNUM_TARGET_GLES t \<and> isExtensionSupported context NV_depth_buffer_float then
       (rs\<lparr>clearDepthImplementation := Some glClearDepthdNV,
           depthRangeImplementation := Some glDepthRangedNV,
           clearDepthfImplementation := Some clearDepthfImplementationNV,
           depthRangefImplementation := Some depthRangefImplementationNV\<rparr>,
        insert NV_depth_buffer_float extensions)
     else
       (let rs = (if \<not> MAGNUM_TARGET_GLES t
                  then rs\<lparr>clearDepthImplementation := Some glClearDepth,
                          depthRangeImplementation := Some glDepthRange\<rparr>
                  else rs)
        in if MAGNUM_TARGET_GLES t \<or> isExtensionSupported context ARB_ES2_compatibility then
             (rs\<lparr>clearDepthfImplementation := Some glClearDepthf,
                 depthRangefImplementation := Some glDepthRangef\<rparr>,
              if \<not> MAGNUM_TARGET_GLES t then insert ARB_ES2_compatibility extensions
              else extensions)
           else
             (rs\<lparr>clearDepthfImplementation := Some clearDepthfImplementationDefault,
                 depthRangefImplementation := Some depthRangefImplementationDefault\<rparr>,
              extensions)))"

definition resolveGraphicsResetStatus :: "target \<Rightarrow> 'cs Context \<Rightarrow> resolving \<Rightarrow> resolving" where
  \<comment> \<open>graphics reset status implementation\<close>
  "resolveGraphicsResetStatus t context = (\<lambda>(rs, extensions).
     if \<not> MAGNUM_TARGET_WEBGL t then
       if \<not> MAGNUM_TARGET_GLES t then
         if isExtensionSupported context ARB_robustness
         then (rs\<lparr>graphicsResetStatusImplementation := Some glGetGraphicsResetStatusARB\<rparr>,
               insert ARB_robustness extensions)
         else (rs\<lparr>graphicsResetStatusImplementation := Some graphicsResetStatusImplementationDefault\<rparr>,
               extensions)
       else
         if isExtensionSupported context EXT_robustness
         then (rs\<lparr>graphicsResetStatusImplementation := Some glGetGraphicsResetStatusEXT\<rparr>,
               insert EXT_robustness extensions)
         else (rs\<lparr>graphicsResetStatusImplementation := Some graphicsResetStatusImplementationDefault\<rparr>,
               extensions)
     else (rs, extensions))"

definition pinRowLength :: "target \<Rightarrow> 'cs Context \<Rightarrow> RendererState \<Rightarrow> RendererState" where
  \<comment> \<open>the value \<^verbatim>\<open>reset()\<close> gives the row length\<close>
  "pinRowLength t context rs =
     (if \<not> (MAGNUM_TARGET_GLES2 t \<and> MAGNUM_TARGET_WEBGL t) then
        (let rs = rs\<lparr>unpackPixelStorage := (unpackPixelStorage rs)\<lparr>disengagedRowLength := DisengagedValue\<rparr>\<rparr>;
             rs = rs\<lparr>packPixelStorage := (packPixelStorage rs)\<lparr>disengagedRowLength := DisengagedValue\<rparr>\<rparr>
         in if MAGNUM_TARGET_GLES2 t then
              (let rs = (if \<not> isExtensionSupported context EXT_unpack_subimage
                         then rs\<lparr>unpackPixelStorage := (unpackPixelStorage rs)\<lparr>disengagedRowLength := 0\<rparr>\<rparr>
                         else rs);
                   rs = (if \<not> isExtensionSupported context NV_pack_subimage
                         then rs\<lparr>packPixelStorage := (packPixelStorage rs)\<lparr>disengagedRowLength := 0\<rparr>\<rparr>
                         else rs)
               in rs)
            else rs)
      else rs)"

definition pinBlockSize :: "target \<Rightarrow> 'cs Context \<Rightarrow> RendererState \<Rightarrow> RendererState" where
  \<comment> \<open>the value \<^verbatim>\<open>reset()\<close> gives the compressed block properties\<close>
  "pinBlockSize t context rs =
     (if \<not> MAGNUM_TARGET_GLES t then
        (let rs = rs\<lparr>unpackPixelStorage := (unpackPixelStorage rs)\<lparr>disengagedBlockSize := DisengagedValue\<rparr>\<rparr>;
             rs = rs\<lparr>packPixelStorage := (packPixelStorage rs)\<lparr>disengagedBlockSize := DisengagedValue\<rparr>\<rparr>
         in if \<not> isExtensionSupported context ARB_compressed_texture_pixel_storage then
              (let rs = rs\<lparr>unpackPixelStorage := (unpackPixelStorage rs)\<lparr>disengagedBlockSize := 0\<rparr>\<rparr>;
                   rs = rs\<lparr>packPixelStorage := (packPixelStorage rs)\<lparr>disengagedBlockSize := 0\<rparr>\<rparr>
               in rs)
            else rs)
      else rs)"

definition resolveLineWidthRange :: "target \<Rightarrow> 'cs Context \<Rightarrow> RendererState \<Rightarrow> RendererState" where
  "resolveLineWidthRange t context rs =
     (if \<not> MAGNUM_TARGET_GLES t \<and>
         Mesa \<in> detectedDriver context \<and> ForwardCompatible \<in> flags context \<and>
         \<not> isDriverWorkaroundDisabled context ''mesa-forward-compatible-line-width-range''
      then rs\<lparr>lineWidthRangeImplementation := Some lineWidthRangeImplementationMesaForwardCompatible\<rparr>
      else rs\<lparr>lineWidthRangeImplementation := Some lineWidthRangeImplementationDefault\<rparr>)"

definition resolveMinSampleShading :: "target \<Rightarrow> 'cs Context \<Rightarrow> resolving \<Rightarrow> resolving" where
  "resolveMinSampleShading t context = (\<lambda>(rs, extensions).
     if \<not> MAGNUM_TARGET_GLES t then
       (rs\<lparr>minSampleShadingImplementation := Some glMinSampleShading\<rparr>, extensions)
     else if \<not> MAGNUM_TARGET_GLES2 t \<and> \<not> MAGNUM_TARGET_WEBGL t then
       if isVersionSupported context GLES320 then
         (rs\<lparr>minSampleShadingImplementation := Some glMinSampleShading\<rparr>, extensions)
       else if isExtensionSupported context OES_sample_shading then
         (rs\<lparr>minSampleShadingImplementation := Some glMinSampleShadingOES\<rparr>,
          insert OES_sample_shading extensions)
       else
         (rs\<lparr>minSampleShadingImplementation := None\<rparr>, extensions)
     else (rs, extensions))"

definition resolvePatchParameteri :: "target \<Rightarrow> 'cs Context \<Rightarrow> RendererState \<Rightarrow> RendererState" where
  "resolvePatchParameteri t context rs =
     (if \<not> MAGNUM_TARGET_GLES2 t \<and> \<not> MAGNUM_TARGET_WEBGL t then
        if \<not> MAGNUM_TARGET_GLES t \<or> isVersionSupported context GLES320
        then rs\<lparr>patchParameteriImplementation := Some glPatchParameteri\<rparr>
        else rs\<lparr>patchParameteriImplementation := Some glPatchParameteriEXT\<rparr>
      else rs)"

definition resolveIndexed :: "target \<Rightarrow> 'cs Context \<Rightarrow> RendererState \<Rightarrow> RendererState" where
  \<comment> \<open>the indexed enable, disable, colour mask and blend entry points\<close>
  "resolveIndexed t context rs =
     (if \<not> (MAGNUM_TARGET_WEBGL t \<and> MAGNUM_TARGET_GLES2 t) then
        if (\<not> MAGNUM_TARGET_GLES2 t \<and> \<not> MAGNUM_TARGET_WEBGL t) \<and>
           (\<not> MAGNUM_TARGET_GLES t \<or> isVersionSupported context GLES320)
        then rs\<lparr>enableiImplementation := Some glEnablei,
                disableiImplementation := Some glDisablei,
                colorMaskiImplementation := Some glColorMaski,
                blendFunciImplementation := Some glBlendFunci,
                blendFuncSeparateiImplementation := Some glBlendFuncSeparatei,
                blendEquationiImplementation := Some glBlendEquationi,
                blendEquationSeparateiImplementation := Some glBlendEquationSeparatei\<rparr>
        else if MAGNUM_TARGET_GLES t then
          if \<not> MAGNUM_TARGET_WEBGL t
          then rs\<lparr>enableiImplementation := Some glEnableiEXT,
                  disableiImplementation := Some glDisableiEXT,
                  colorMaskiImplementation := Some glColorMaskiEXT,
                  blendFunciImplementation := Some glBlendFunciEXT,
                  blendFuncSeparateiImplementation := Some glBlendFuncSeparateiEXT,
                  blendEquationiImplementation := Some glBlendEquationiEXT,
                  blendEquationSeparateiImplementation := Some glBlendEquationSeparateiEXT\<rparr>
          else rs\<lparr>enableiImplementation := None,
                  disableiImplementation := None,
                  colorMaskiImplementation := None,
                  blendFunciImplementation := None,
                  blendFuncSeparateiImplementation := None,
                  blendEquationiImplementation := None,
                  blendEquationSeparateiImplementation := None\<rparr>
        else rs
      else rs)"

definition resolvePolygonMode :: "target \<Rightarrow> nat \<Rightarrow> 'cs Context \<Rightarrow> resolving \<Rightarrow> resolving" where
  \<comment> \<open>\<open>emscripten\<close> is \<^verbatim>\<open>__EMSCRIPTEN_major__*10000 + __EMSCRIPTEN_minor__*100 +
      __EMSCRIPTEN_tiny__\<close>, read on WebGL targets only\<close>
  "resolvePolygonMode t emscripten context = (\<lambda>(rs, extensions).
     if MAGNUM_TARGET_GLES t then
       if \<not> MAGNUM_TARGET_WEBGL t then
         if isExtensionSupported context NV_polygon_mode then
           (rs\<lparr>polygonModeImplementation := Some glPolygonModeNV\<rparr>,
            insert NV_polygon_mode extensions)
         else if isExtensionSupported context ANGLE_polygon_mode then
           (rs\<lparr>polygonModeImplementation := Some glPolygonModeANGLE\<rparr>,
            insert ANGLE_polygon_mode extensions)
         else (rs\<lparr>polygonModeImplementation := None\<rparr>, extensions)
       else if emscripten \<ge> 30166 then
         if isExtensionSupported context WEBGL_polygon_mode then
           (rs\<lparr>polygonModeImplementation := Some glPolygonModeWEBGL\<rparr>,
            insert WEBGL_polygon_mode extensions)
         else (rs\<lparr>polygonModeImplementation := None\<rparr>, extensions)
       else (rs\<lparr>polygonModeImplementation := None\<rparr>, extensions)
     else (rs, extensions))"

definition enablePointSprite :: "target \<Rightarrow> 'cs Context \<Rightarrow> 'cs \<Rightarrow> gl_call list" where
  \<comment> \<open>the driver calls of the last block of the constructor\<close>
  "enablePointSprite t context contextState =
     (if \<not> MAGNUM_TARGET_GLES t then
        if \<not> isCoreProfileInternal context contextState
        then [glEnable 0x8861]
        else []
      else [])"

definition RendererState_ctor :: "target \<Rightarrow> nat \<Rightarrow> 'cs Context \<Rightarrow> 'cs \<Rightarrow> Extension set \<Rightarrow> RendererState \<Rightarrow> gl_call list \<times> RendererState \<times> Extension set" where
  \<comment> \<open>\<^verbatim>\<open>RendererState::RendererState\<close>. \<open>raw\<close> is the storage the object is built in:
      a member that the constructor does not assign keeps what is there. Returns the
      driver calls issued, the constructed state and the extension-usage array.\<close>
  "RendererState_ctor t emscripten context contextState extensions raw =
     (let rs = (if \<not> MAGNUM_TARGET_WEBGL t then raw\<lparr>resetNotificationStrategy := 0\<rparr> else raw);
          rs = rs\<lparr>unpackPixelStorage := PixelStorageState_ctor t (unpackPixelStorage rs),
                  packPixelStorage := PixelStorageState_ctor t (packPixelStorage rs)\<rparr>;
          (rs, extensions) = resolveDepth t context (rs, extensions);
          (rs, extensions) = resolveGraphicsResetStatus t context (rs, extensions);
          rs = pinRowLength t context rs;
          rs = pinBlockSize t context rs;
          rs = resolveLineWidthRange t context rs;
          (rs, extensions) = resolveMinSampleShading t context (rs, extensions);
          rs = resolvePatchParameteri t context rs;
          rs = resolveIndexed t context rs;
          (rs, extensions) = resolvePolygonMode t emscripten context (rs, extensions)
      in (enablePointSprite t context contextState, rs, extensions))"

section \<open>Vocabulary of the properties\<close>

definition directionBlock :: "bool \<Rightarrow> RendererState \<Rightarrow> PixelStorageState" where
  \<comment> \<open>\<^verbatim>\<open>isUnpack ? unpackPixelStorage : packPixelStorage\<close>\<close>
  "directionBlock isUnpack rs = (if isUnpack then unpackPixelStorage rs else packPixelStorage rs)"

fun compressedOnly :: "gl_call \<Rightarrow> bool" where
  \<comment> \<open>the driver calls that only the compressed apply issues\<close>
  "compressedOnly (glPixelStorei p v) =
     (p \<in> {GL_UNPACK_COMPRESSED_BLOCK_WIDTH, GL_PACK_COMPRESSED_BLOCK_WIDTH,
            GL_UNPACK_COMPRESSED_BLOCK_HEIGHT, GL_PACK_COMPRESSED_BLOCK_HEIGHT,
            GL_UNPACK_COMPRESSED_BLOCK_DEPTH, GL_PACK_COMPRESSED_BLOCK_DEPTH,
            GL_UNPACK_COMPRESSED_BLOCK_SIZE, GL_PACK_COMPRESSED_BLOCK_SIZE})"
| "compressedOnly (glEnable c) = False"

definition compressedPart :: "PixelStorageState \<Rightarrow> Vector3i \<times> int \<times> int \<times> int" where
  \<comment> \<open>the members of a block that \<^verbatim>\<open>applyPixelStorageInternal\<close> never names\<close>
  "compressedPart state = (compressedBlockSize state, compressedBlockDataSize state,
     disengagedRowLength state, disengagedBlockSize state)"

definition resetDirection :: "target \<Rightarrow> bool \<Rightarrow> RendererState \<Rightarrow> RendererState" where
  \<comment> \<open>\<^verbatim>\<open>reset()\<close> called on the block of one direction\<close>
  "resetDirection t isUnpack rs =
     (if isUnpack then rs\<lparr>unpackPixelStorage := reset t (unpackPixelStorage rs)\<rparr>
      else rs\<lparr>packPixelStorage := reset t (packPixelStorage rs)\<rparr>)"

definition pinnedRowLength :: "target \<Rightarrow> 'cs Context \<Rightarrow> bool \<Rightarrow> int" where
  \<comment> \<open>what the constructor leaves in \<^verbatim>\<open>disengagedRowLength\<close> of a direction\<close>
  "pinnedRowLength t context isUnpack =
     (if MAGNUM_TARGET_GLES2 t \<and>
         \<not> isExtensionSupported context (if isUnpack then EXT_unpack_subimage else NV_pack_subimage)
      then 0 else DisengagedValue)"

definition pinnedBlockSize :: "target \<Rightarrow> 'cs Context \<Rightarrow> int" where
  \<comment> \<open>what the constructor leaves in \<^verbatim>\<open>disengagedBlockSize\<close>\<close>
  "pinnedBlockSize t context =
     (if \<not> isExtensionSupported context ARB_compressed_texture_pixel_storage
      then 0 else DisengagedValue)"

subsection \<open>Concrete inputs\<close>

definition rawPixelStorageState :: PixelStorageState where
  "rawPixelStorageState =
     \<lparr>alignment = 0, rowLength = 0, imageHeight = 0, skip = Vector3i_fill 0,
      compressedBlockSize = Vector3i_fill 0, compressedBlockDataSize = 0,
      disengagedRowLength = 0, disengagedBlockSize = 0\<rparr>"

definition rawRendererState :: RendererState where
  \<comment> \<open>zero-filled storage to construct a renderer state in\<close>
  "rawRendererState =
     \<lparr>resetNotificationStrategy = 0,
      clearDepthImplementation = None, depthRangeImplementation = None,
      clearDepthfImplementation = None, depthRangefImplementation = None,
      graphicsResetStatusImplementation = None, lineWidthRangeImplementation = None,
      minSampleShadingImplementation = None, patchParameteriImplementation = None,
      enableiImplementation = None, disableiImplementation = None,
      colorMaskiImplementation = None, blendFunciImplementation = None,
      blendFuncSeparateiImplementation = None, blendEquationiImplementation = None,
      blendEquationSeparateiImplementation = None, polygonModeImplementation = None,
      unpackPixelStorage = rawPixelStorageState, packPixelStorage = rawPixelStorageState\<rparr>"

definition contextWith :: "Extension list \<Rightarrow> bool \<Rightarrow> bool \<Rightarrow> unit Context" where
  \<comment> \<open>a context that supports the listed extensions, ES 3.2 if \<open>es32\<close>, and is a core
      profile if \<open>core\<close>\<close>
  "contextWith exts es32 core =
     \<lparr>isExtensionSupported = (\<lambda>e. e \<in> set exts),
      isVersionSupported = (\<lambda>v. v = GLES320 \<and> es32),
      detectedDriver = {}, flags = {},
      isDriverWorkaroundDisabled = (\<lambda>_. False),
      isCoreProfileInternal = (\<lambda>_. core)\<rparr>"

definition constructed :: "target \<Rightarrow> unit Context \<Rightarrow> RendererState" where
  \<comment> \<open>the renderer state right after its constructor has run\<close>
  "constructed t context = fst (snd (RendererState_ctor t 0 context () {} rawRendererState))"

subsection \<open>Reading and writing the block of a direction\<close>

definition setDirectionBlock :: "bool \<Rightarrow> PixelStorageState \<Rightarrow> RendererState \<Rightarrow> RendererState" where
  \<comment> \<open>the renderer state with the block of one direction replaced\<close>
  "setDirectionBlock isUnpack state rs =
     (if isUnpack then rs\<lparr>unpackPixelStorage := state\<rparr> else rs\<lparr>packPixelStorage := state\<rparr>)"



definition sentinelFree :: "PixelStorage \<Rightarrow> bool" where
  \<comment> \<open>no requested value is the sentinel itself\<close>
  "sentinelFree storage =
     (PixelStorage.alignment storage \<noteq> DisengagedValue \<and>
      PixelStorage.rowLength storage \<noteq> DisengagedValue \<and>
      PixelStorage.imageHeight storage \<noteq> DisengagedValue \<and>
      x (PixelStorage.skip storage) \<noteq> DisengagedValue \<and>
      y (PixelStorage.skip storage) \<noteq> DisengagedValue \<and>
      z (PixelStorage.skip storage) \<noteq> DisengagedValue)"

subsection \<open>Driver calls by parameter name\<close>


fun parameterOf :: "gl_call \<Rightarrow> pname option" where
  "parameterOf (glPixelStorei p v) = Some p"
| "parameterOf (glEnable c) = None"

definition fieldNames :: "target \<Rightarrow> bool \<Rightarrow> pname list" where
  \<comment> \<open>the parameter names the apply functions of a target use in one direction, in the
      order of the source: six plain fields, then four compressed ones\<close>
  "fieldNames t isUnpack =
     [if isUnpack then GL_UNPACK_ALIGNMENT else GL_PACK_ALIGNMENT,
      if \<not> MAGNUM_TARGET_GLES2 t
      then (if isUnpack then GL_UNPACK_ROW_LENGTH else GL_PACK_ROW_LENGTH)
      else (if isUnpack then GL_UNPACK_ROW_LENGTH_EXT else GL_PACK_ROW_LENGTH_NV),
      if isUnpack then GL_UNPACK_IMAGE_HEIGHT else GL_PACK_IMAGE_HEIGHT,
      if isUnpack then GL_UNPACK_SKIP_PIXELS else GL_PACK_SKIP_PIXELS,
      if isUnpack then GL_UNPACK_SKIP_ROWS else GL_PACK_SKIP_ROWS,
      if isUnpack then GL_UNPACK_SKIP_IMAGES else GL_PACK_SKIP_IMAGES,
      if isUnpack then GL_UNPACK_COMPRESSED_BLOCK_WIDTH else GL_PACK_COMPRESSED_BLOCK_WIDTH,
      if isUnpack then GL_UNPACK_COMPRESSED_BLOCK_HEIGHT else GL_PACK_COMPRESSED_BLOCK_HEIGHT,
      if isUnpack then GL_UNPACK_COMPRESSED_BLOCK_DEPTH else GL_PACK_COMPRESSED_BLOCK_DEPTH,
      if isUnpack then GL_UNPACK_COMPRESSED_BLOCK_SIZE else GL_PACK_COMPRESSED_BLOCK_SIZE]"


definition namesWithin :: "pname list \<Rightarrow> gl_call list \<Rightarrow> bool" where
  \<comment> \<open>no parameter is set twice, and only parameters of the list are set\<close>
  "namesWithin L calls =
     (distinct (map parameterOf calls) \<and> set (map parameterOf calls) \<subseteq> Some ` set L)"

subsection \<open>A block that an apply leaves alone\<close>

definition settledUpTo :: "nat \<Rightarrow> target \<Rightarrow> bool \<Rightarrow> PixelStorage \<Rightarrow> PixelStorageState \<Rightarrow> bool" where
  \<comment> \<open>the first \<open>k\<close> steps of the plain apply find nothing to do\<close>
  "settledUpTo k t isUnpack storage state =
     ((1 \<le> k \<longrightarrow> alignment state = PixelStorage.alignment storage) \<and>
      (2 \<le> k \<longrightarrow>
         (if MAGNUM_TARGET_GLES2 t \<and> MAGNUM_TARGET_WEBGL t then PixelStorage.rowLength storage = 0
          else rowLength state = PixelStorage.rowLength storage)) \<and>
      (3 \<le> k \<longrightarrow>
         (if MAGNUM_TARGET_GLES2 t then PixelStorage.imageHeight storage = 0
          else imageHeight state = PixelStorage.imageHeight storage \<or>
               (MAGNUM_TARGET_GLES t \<and> \<not> isUnpack \<and> PixelStorage.imageHeight storage = 0))) \<and>
      (4 \<le> k \<longrightarrow> \<not> MAGNUM_TARGET_GLES2 t \<longrightarrow> x (skip state) = x (PixelStorage.skip storage)) \<and>
      (5 \<le> k \<longrightarrow> \<not> MAGNUM_TARGET_GLES2 t \<longrightarrow> y (skip state) = y (PixelStorage.skip storage)) \<and>
      (6 \<le> k \<longrightarrow> \<not> MAGNUM_TARGET_GLES2 t \<longrightarrow>
         z (skip state) = z (PixelStorage.skip storage) \<or>
         (MAGNUM_TARGET_GLES t \<and> \<not> isUnpack \<and> z (PixelStorage.skip storage) = 0)))"

definition plainPart :: "PixelStorageState \<Rightarrow> int \<times> int \<times> int \<times> Vector3i" where
  \<comment> \<open>the members of a block that the compressed steps never name\<close>
  "plainPart state = (alignment state, rowLength state, imageHeight state, skip state)"

definition shortCircuit :: "CompressedPixelStorage \<Rightarrow> PixelStorageState \<Rightarrow> bool" where
  \<comment> \<open>the condition under which the compressed apply skips its guarded block\<close>
  "shortCircuit storage state =
     (PixelStorage.skip storage = Vector3i_fill 0 \<and> PixelStorage.rowLength storage = 0 \<and>
      PixelStorage.imageHeight storage = 0 \<and>
      compressedBlockSize state = Vector3i_fill 0 \<and> compressedBlockDataSize state = 0)"

definition compressedSettled :: "CompressedPixelStorage \<Rightarrow> Vector3i \<Rightarrow> int \<Rightarrow> PixelStorageState \<Rightarrow> bool" where
  "compressedSettled storage blockSize blockDataSize state =
     (shortCircuit storage state \<or>
      (compressedBlockSize state = blockSize \<and> compressedBlockDataSize state = blockDataSize))"

subsection \<open>Sequences of operations on one block\<close>




definition writtenSince :: "pname \<Rightarrow> gl_call list \<Rightarrow> bool" where
  "writtenSince p calls = (Some p \<in> set (map parameterOf calls))"






section \<open>Basic facts about the steps\<close>

lemmas step_defs = applyAlignment_def applyRowLength_def applyImageHeight_def
  applySkipPixels_def applySkipRows_def applySkipImages_def

lemmas cstep_defs = applyCompressedBlockWidth_def applyCompressedBlockHeight_def
  applyCompressedBlockDepth_def applyCompressedBlockDataSize_def

lemmas ctor_defs = constructed_def RendererState_ctor_def resolveDepth_def
  resolveGraphicsResetStatus_def pinRowLength_def pinBlockSize_def resolveLineWidthRange_def
  resolveMinSampleShading_def resolvePatchParameteri_def resolveIndexed_def
  resolvePolygonMode_def rawRendererState_def rawPixelStorageState_def contextWith_def
  PixelStorageState_ctor_def DisengagedValue_def Let_def

lemma andThen_None [simp]: "andThen (None, calls, state) f = f calls state"
  by (simp add: andThen_def)

lemma andThen_Some [simp]: "andThen (Some e, calls, state) f = (Some e, calls, state)"
  by (simp add: andThen_def)

lemma andThen_state_frame:
  assumes "\<And>calls state. g (snd (snd (f calls state))) = g state"
  shows "g (snd (snd (andThen p f))) = g (snd (snd p))"
  using assms by (cases p; cases "fst p") auto

lemma andThen_calls_frame:
  assumes "\<And>calls state. h (fst (snd (f calls state))) = h calls"
  shows "h (fst (snd (andThen p f))) = h (fst (snd p))"
  using assms by (cases p; cases "fst p") auto

lemma andThen_no_failure:
  assumes "fst p = None" and "\<And>calls state. fst (f calls state) = None"
  shows "fst (andThen p f) = None"
  using assms by (cases p) auto

text \<open>The plain apply touches neither the compressed members nor the pins of a block.\<close>

lemma steps_state_frame:
  "compressedPart (snd (snd (applyAlignment storage isUnpack calls state))) = compressedPart state"
  "compressedPart (snd (snd (applyRowLength t storage isUnpack calls state))) = compressedPart state"
  "compressedPart (snd (snd (applyImageHeight t storage isUnpack calls state))) = compressedPart state"
  "compressedPart (snd (snd (applySkipPixels storage isUnpack calls state))) = compressedPart state"
  "compressedPart (snd (snd (applySkipRows storage isUnpack calls state))) = compressedPart state"
  "compressedPart (snd (snd (applySkipImages t storage isUnpack calls state))) = compressedPart state"
  by (simp_all add: step_defs compressedPart_def)

lemma steps_calls_frame:
  "filter compressedOnly (fst (snd (applyAlignment storage isUnpack calls state))) = filter compressedOnly calls"
  "filter compressedOnly (fst (snd (applyRowLength t storage isUnpack calls state))) = filter compressedOnly calls"
  "filter compressedOnly (fst (snd (applyImageHeight t storage isUnpack calls state))) = filter compressedOnly calls"
  "filter compressedOnly (fst (snd (applySkipPixels storage isUnpack calls state))) = filter compressedOnly calls"
  "filter compressedOnly (fst (snd (applySkipRows storage isUnpack calls state))) = filter compressedOnly calls"
  "filter compressedOnly (fst (snd (applySkipImages t storage isUnpack calls state))) = filter compressedOnly calls"
  by (simp_all add: step_defs)

lemma plain_block_state_frame:
  "compressedPart (snd (snd (applyPixelStorageBlock t storage isUnpack calls state))) = compressedPart state"
  unfolding applyPixelStorageBlock_def
  by (simp add: andThen_state_frame steps_state_frame)

lemma plain_block_calls_frame:
  "filter compressedOnly (fst (snd (applyPixelStorageBlock t storage isUnpack calls state))) = filter compressedOnly calls"
  unfolding applyPixelStorageBlock_def
  by (simp add: andThen_calls_frame steps_calls_frame)

text \<open>The desktop path of the plain apply has no assertion, nor has the guarded block.\<close>

lemma plain_Desktop_no_failure:
  "fst (applyPixelStorageBlock Desktop storage isUnpack calls state) = None"
  unfolding applyPixelStorageBlock_def
  by (intro andThen_no_failure) (simp_all add: step_defs)

lemma compressedBlock_no_failure:
  "fst (applyCompressedBlock storage blockSize blockDataSize isUnpack calls state) = None"
  unfolding applyCompressedBlock_def
  by (auto intro!: andThen_no_failure simp: cstep_defs)

text \<open>What the functions on the renderer state do, in terms of the block of the direction.\<close>

lemma apply_lift:
  "fst (applyPixelStorageInternal t storage isUnpack rs) =
     fst (applyPixelStorageBlock t storage isUnpack [] (directionBlock isUnpack rs))"
  "fst (snd (applyPixelStorageInternal t storage isUnpack rs)) =
     fst (snd (applyPixelStorageBlock t storage isUnpack [] (directionBlock isUnpack rs)))"
  "directionBlock isUnpack (snd (snd (applyPixelStorageInternal t storage isUnpack rs))) =
     snd (snd (applyPixelStorageBlock t storage isUnpack [] (directionBlock isUnpack rs)))"
  "directionBlock (\<not> isUnpack) (snd (snd (applyPixelStorageInternal t storage isUnpack rs))) =
     directionBlock (\<not> isUnpack) rs"
  by (simp_all add: applyPixelStorageInternal_def directionBlock_def split: prod.splits)

lemma applyCompressed_lift:
  "fst (applyCompressedPixelStorageInternal t storage blockSize blockDataSize isUnpack rs) =
     fst (applyCompressedPixelStorageBlock t storage blockSize blockDataSize isUnpack []
            (directionBlock isUnpack rs))"
  "fst (snd (applyCompressedPixelStorageInternal t storage blockSize blockDataSize isUnpack rs)) =
     fst (snd (applyCompressedPixelStorageBlock t storage blockSize blockDataSize isUnpack []
                 (directionBlock isUnpack rs)))"
  "directionBlock isUnpack
     (snd (snd (applyCompressedPixelStorageInternal t storage blockSize blockDataSize isUnpack rs))) =
     snd (snd (applyCompressedPixelStorageBlock t storage blockSize blockDataSize isUnpack []
                 (directionBlock isUnpack rs)))"
  "directionBlock (\<not> isUnpack)
     (snd (snd (applyCompressedPixelStorageInternal t storage blockSize blockDataSize isUnpack rs))) =
     directionBlock (\<not> isUnpack) rs"
  by (simp_all add: applyCompressedPixelStorageInternal_def directionBlock_def split: prod.splits)

lemma constructed_Desktop_blocks:
  "unpackPixelStorage (constructed Desktop (contextWith [ARB_compressed_texture_pixel_storage] False False)) =
    \<lparr>alignment = 4, rowLength = 0, imageHeight = 0, skip = Vector3i_fill 0,
      compressedBlockSize = Vector3i_fill 0, compressedBlockDataSize = 0,
      disengagedRowLength = - 1, disengagedBlockSize = - 1\<rparr>"
  by (simp add: ctor_defs)

section \<open>The short-circuit of the compressed apply\<close>

lemma compressedBlock_short_circuit:
  "PixelStorage.skip storage = Vector3i_fill 0 \<Longrightarrow> PixelStorage.rowLength storage = 0 \<Longrightarrow>
   PixelStorage.imageHeight storage = 0 \<Longrightarrow>
   compressedBlockSize state = Vector3i_fill 0 \<Longrightarrow> compressedBlockDataSize state = 0 \<Longrightarrow>
   applyCompressedBlock storage blockSize blockDataSize isUnpack calls state = (None, calls, state)"
  by (simp add: applyCompressedBlock_def)

lemma compressed_block_short_circuit:
  assumes "PixelStorage.skip storage = Vector3i_fill 0" "PixelStorage.rowLength storage = 0"
    "PixelStorage.imageHeight storage = 0"
    "compressedBlockSize state = Vector3i_fill 0" "compressedBlockDataSize state = 0"
  shows "filter compressedOnly (fst (snd (applyCompressedPixelStorageBlock t storage blockSize blockDataSize isUnpack [] state))) = []
    \<and> compressedPart (snd (snd (applyCompressedPixelStorageBlock t storage blockSize blockDataSize isUnpack [] state))) = compressedPart state"
proof -
  obtain e1 c1 s1 where plain:
    "applyPixelStorageBlock t (PixelStorage.truncate storage) isUnpack [] state = (e1, c1, s1)"
    by (metis prod_cases3)
  have c1: "filter compressedOnly c1 = []"
    using plain_block_calls_frame [of t "PixelStorage.truncate storage" isUnpack "[]" state] plain
    by simp
  have s1: "compressedPart s1 = compressedPart state"
    using plain_block_state_frame [of t "PixelStorage.truncate storage" isUnpack "[]" state] plain
    by simp
  have zero: "compressedBlockSize s1 = Vector3i_fill 0" "compressedBlockDataSize s1 = 0"
    using s1 assms(4,5) by (simp_all add: compressedPart_def)
  show ?thesis
  proof (cases "MAGNUM_TARGET_GLES t")
    case True
    then show ?thesis
      by (simp add: applyCompressedPixelStorageBlock_def plain_block_calls_frame
          plain_block_state_frame)
  next
    case False
    show ?thesis
    proof (cases e1)
      case None
      then show ?thesis
        using False plain c1 s1 compressedBlock_short_circuit [OF assms(1,2,3) zero]
        by (simp add: applyCompressedPixelStorageBlock_def)
    next
      case (Some e)
      then show ?thesis
        using False plain c1 s1 by (simp add: applyCompressedPixelStorageBlock_def)
    qed
  qed
qed

text \<open>
  C5. When the requested skip, row length and image height are all zero and the cached
  compressed block size and block byte size of the direction's block are all zero, the
  compressed apply issues none of the compressed-only driver calls and the cached
  compressed block properties stay zero, whatever block size and block byte size are
  supplied. This holds on every target.
\<close>

theorem compressed_short_circuit:
  assumes "PixelStorage.skip storage = Vector3i_fill 0"
    and "PixelStorage.rowLength storage = 0"
    and "PixelStorage.imageHeight storage = 0"
    and "compressedBlockSize (directionBlock isUnpack rs) = Vector3i_fill 0"
    and "compressedBlockDataSize (directionBlock isUnpack rs) = 0"
  shows "filter compressedOnly
           (fst (snd (applyCompressedPixelStorageInternal t storage blockSize blockDataSize isUnpack rs))) = []
       \<and> compressedBlockSize (directionBlock isUnpack
           (snd (snd (applyCompressedPixelStorageInternal t storage blockSize blockDataSize isUnpack rs))))
           = Vector3i_fill 0
       \<and> compressedBlockDataSize (directionBlock isUnpack
           (snd (snd (applyCompressedPixelStorageInternal t storage blockSize blockDataSize isUnpack rs))))
           = 0"
  using compressed_block_short_circuit [OF assms, of t blockSize blockDataSize isUnpack] assms(4,5)
  by (simp add: applyCompressed_lift compressedPart_def)

theorem compressed_short_circuit_witness:
  "filter compressedOnly
     (fst (snd (applyCompressedPixelStorageInternal Desktop CompressedPixelStorage_default
        \<lparr>x = 4, y = 4, z = 1\<rparr> 8 True
        (constructed Desktop (contextWith [ARB_compressed_texture_pixel_storage] False False))))) = []
   \<and> compressedBlockDataSize (directionBlock True
       (snd (snd (applyCompressedPixelStorageInternal Desktop CompressedPixelStorage_default
        \<lparr>x = 4, y = 4, z = 1\<rparr> 8 True
        (constructed Desktop (contextWith [ARB_compressed_texture_pixel_storage] False False)))))) = 0"
  using compressed_short_circuit [of CompressedPixelStorage_default True
      "constructed Desktop (contextWith [ARB_compressed_texture_pixel_storage] False False)"
      Desktop "\<lparr>x = 4, y = 4, z = 1\<rparr>" 8]
  by (simp add: CompressedPixelStorage_default_def directionBlock_def constructed_Desktop_blocks)

section \<open>The two directions\<close>

text \<open>
  C8. An apply in the unpack direction leaves the whole pack block as it was, and an apply
  in the pack direction leaves the whole unpack block as it was, for the plain and for
  the compressed apply, on every target.
\<close>

theorem directions_independent:
  "packPixelStorage (snd (snd (applyPixelStorageInternal t storage True rs))) = packPixelStorage rs
 \<and> unpackPixelStorage (snd (snd (applyPixelStorageInternal t storage False rs))) = unpackPixelStorage rs
 \<and> packPixelStorage (snd (snd (applyCompressedPixelStorageInternal t cstorage blockSize blockDataSize True rs)))
     = packPixelStorage rs
 \<and> unpackPixelStorage (snd (snd (applyCompressedPixelStorageInternal t cstorage blockSize blockDataSize False rs)))
     = unpackPixelStorage rs"
  using apply_lift(4) [of True t storage rs] apply_lift(4) [of False t storage rs]
    applyCompressed_lift(4) [of True t cstorage blockSize blockDataSize rs]
    applyCompressed_lift(4) [of False t cstorage blockSize blockDataSize rs]
  by (simp add: directionBlock_def)

theorem directions_independent_witness:
  "packPixelStorage (snd (snd (applyPixelStorageInternal GLES3
      (PixelStorage_default\<lparr>PixelStorage.alignment := 1, PixelStorage.rowLength := 7\<rparr>) True
      (constructed GLES3 (contextWith [] False False)))))
     = packPixelStorage (constructed GLES3 (contextWith [] False False))
 \<and> unpackPixelStorage (snd (snd (applyCompressedPixelStorageInternal Desktop
      (CompressedPixelStorage_default\<lparr>PixelStorage.skip := \<lparr>x = 4, y = 0, z = 0\<rparr>\<rparr>)
      \<lparr>x = 4, y = 4, z = 1\<rparr> 8 False
      (constructed Desktop (contextWith [] False False)))))
     = unpackPixelStorage (constructed Desktop (contextWith [] False False))"
  using directions_independent [of GLES3
      "PixelStorage_default\<lparr>PixelStorage.alignment := 1, PixelStorage.rowLength := 7\<rparr>"
      "constructed GLES3 (contextWith [] False False)"]
    directions_independent [of Desktop _ "constructed Desktop (contextWith [] False False)"
      "CompressedPixelStorage_default\<lparr>PixelStorage.skip := \<lparr>x = 4, y = 0, z = 0\<rparr>\<rparr>"
      "\<lparr>x = 4, y = 4, z = 1\<rparr>" 8]
  by simp

section \<open>The driver call of the constructor\<close>

text \<open>
  C10. On the desktop target the constructor issues exactly one driver call,
  \<^verbatim>\<open>glEnable(0x8861)\<close> (\<^verbatim>\<open>GL_POINT_SPRITE\<close>), when the context is not a core profile,
  and no driver call when it is.
\<close>

theorem ctor_enables_point_sprite:
  "fst (RendererState_ctor Desktop emscripten context contextState extensions raw) =
     (if isCoreProfileInternal context contextState then [] else [glEnable 0x8861])"
  by (simp add: RendererState_ctor_def enablePointSprite_def Let_def split: prod.splits)

theorem ctor_enables_point_sprite_witness:
  "fst (RendererState_ctor Desktop 0 (contextWith [] False False) () {} rawRendererState) = [glEnable 0x8861]
 \<and> fst (RendererState_ctor Desktop 0 (contextWith [] False True) () {} rawRendererState) = []"
  using ctor_enables_point_sprite [of 0 "contextWith [] False False" "()" "{}" rawRendererState]
    ctor_enables_point_sprite [of 0 "contextWith [] False True" "()" "{}" rawRendererState]
  by (simp add: contextWith_def)

section \<open>The internal assertion of the compressed apply\<close>

lemma desktop_compressed_failure:
  "fst (applyCompressedPixelStorageInternal Desktop storage blockSize blockDataSize isUnpack rs) =
     (if blockSize = Vector3i_fill 0 \<or> blockDataSize = 0 then Some InternalAssert else None)"
proof -
  have "fst (andThen (applyPixelStorageBlock Desktop (PixelStorage.truncate storage) isUnpack []
                        (directionBlock isUnpack rs))
               (applyCompressedBlock storage blockSize blockDataSize isUnpack)) = None"
    by (intro andThen_no_failure plain_Desktop_no_failure compressedBlock_no_failure)
  then show ?thesis
    by (simp add: applyCompressed_lift applyCompressedPixelStorageBlock_def)
qed

text \<open>
  C9, as the code has it. On the desktop path the compressed apply fails its internal
  assertion if and only if the supplied block size is the zero vector (all three
  components zero) or the supplied block byte size is zero. When the three components and
  the byte size are all non-zero the assertion does not fail and no other assertion does:
  the apply runs to its end.
\<close>

theorem internal_assert_iff_all_zero:
  "(fst (applyCompressedPixelStorageInternal Desktop storage blockSize blockDataSize isUnpack rs)
      = Some InternalAssert)
     = ((x blockSize = 0 \<and> y blockSize = 0 \<and> z blockSize = 0) \<or> blockDataSize = 0)
 \<and> (x blockSize \<noteq> 0 \<and> y blockSize \<noteq> 0 \<and> z blockSize \<noteq> 0 \<and> blockDataSize \<noteq> 0 \<longrightarrow>
      fst (applyCompressedPixelStorageInternal Desktop storage blockSize blockDataSize isUnpack rs) = None)"
proof -
  have "(blockSize = Vector3i_fill 0) = (x blockSize = 0 \<and> y blockSize = 0 \<and> z blockSize = 0)"
    by (cases blockSize) (simp add: Vector3i_fill_def)
  then show ?thesis
    by (simp add: desktop_compressed_failure)
qed

theorem internal_assert_iff_all_zero_witness:
  "fst (applyCompressedPixelStorageInternal Desktop CompressedPixelStorage_default
         \<lparr>x = 4, y = 4, z = 1\<rparr> 8 True (constructed Desktop (contextWith [] False False))) = None
 \<and> fst (applyCompressedPixelStorageInternal Desktop CompressedPixelStorage_default
         \<lparr>x = 0, y = 0, z = 0\<rparr> 8 True (constructed Desktop (contextWith [] False False)))
     = Some InternalAssert"
  using internal_assert_iff_all_zero [of CompressedPixelStorage_default "\<lparr>x = 4, y = 4, z = 1\<rparr>" 8 True
      "constructed Desktop (contextWith [] False False)"]
    internal_assert_iff_all_zero [of CompressedPixelStorage_default "\<lparr>x = 0, y = 0, z = 0\<rparr>" 8 True
      "constructed Desktop (contextWith [] False False)"]
  by simp

text \<open>
  A block size with a zero component that is not the zero vector passes the assertion:
  "if and only if a component is zero" fails at block size \<open>(4, 0, 4)\<close>.
\<close>

theorem internal_assert_zero_component_counterexample:
  "\<not> ((fst (applyCompressedPixelStorageInternal Desktop CompressedPixelStorage_default
              \<lparr>x = 4, y = 0, z = 4\<rparr> 8 True (constructed Desktop (contextWith [] False False)))
          = Some InternalAssert)
       = ((x \<lparr>x = 4, y = 0, z = 4\<rparr> = 0 \<or> y \<lparr>x = 4, y = 0, z = 4\<rparr> = 0 \<or> z \<lparr>x = 4, y = 0, z = 4\<rparr> = 0)
          \<or> (8::int) = 0))"
  by (simp add: desktop_compressed_failure Vector3i_fill_def)

section \<open>The blocks after construction and after reset\<close>

lemmas resolve_defs = resolveDepth_def resolveGraphicsResetStatus_def pinRowLength_def
  pinBlockSize_def resolveLineWidthRange_def resolveMinSampleShading_def
  resolvePatchParameteri_def resolveIndexed_def resolvePolygonMode_def

lemma resolve_blocks:
  "unpackPixelStorage (fst (resolveDepth t context p)) = unpackPixelStorage (fst p)"
  "packPixelStorage (fst (resolveDepth t context p)) = packPixelStorage (fst p)"
  "unpackPixelStorage (fst (resolveGraphicsResetStatus t context p)) = unpackPixelStorage (fst p)"
  "packPixelStorage (fst (resolveGraphicsResetStatus t context p)) = packPixelStorage (fst p)"
  "unpackPixelStorage (resolveLineWidthRange t context rs) = unpackPixelStorage rs"
  "packPixelStorage (resolveLineWidthRange t context rs) = packPixelStorage rs"
  "unpackPixelStorage (fst (resolveMinSampleShading t context p)) = unpackPixelStorage (fst p)"
  "packPixelStorage (fst (resolveMinSampleShading t context p)) = packPixelStorage (fst p)"
  "unpackPixelStorage (resolvePatchParameteri t context rs) = unpackPixelStorage rs"
  "packPixelStorage (resolvePatchParameteri t context rs) = packPixelStorage rs"
  "unpackPixelStorage (resolveIndexed t context rs) = unpackPixelStorage rs"
  "packPixelStorage (resolveIndexed t context rs) = packPixelStorage rs"
  "unpackPixelStorage (fst (resolvePolygonMode t emscripten context p)) = unpackPixelStorage (fst p)"
  "packPixelStorage (fst (resolvePolygonMode t emscripten context p)) = packPixelStorage (fst p)"
  by (simp_all add: resolveDepth_def resolveGraphicsResetStatus_def resolveLineWidthRange_def
      resolveMinSampleShading_def resolvePatchParameteri_def resolveIndexed_def
      resolvePolygonMode_def Let_def split_beta)

text \<open>
  A block of the constructed renderer state is what the block's own constructor made,
  with the two pins set by the body of the renderer state's constructor.
\<close>

lemma ctor_block:
  "directionBlock isUnpack (fst (snd (RendererState_ctor t emscripten context contextState extensions raw))) =
     (let b = PixelStorageState_ctor t (directionBlock isUnpack raw);
          b = (if \<not> (MAGNUM_TARGET_GLES2 t \<and> MAGNUM_TARGET_WEBGL t)
               then b\<lparr>disengagedRowLength := pinnedRowLength t context isUnpack\<rparr> else b);
          b = (if \<not> MAGNUM_TARGET_GLES t
               then b\<lparr>disengagedBlockSize := pinnedBlockSize t context\<rparr> else b)
      in b)"
  by (simp add: RendererState_ctor_def resolve_blocks Let_def split_beta directionBlock_def
       pinRowLength_def pinBlockSize_def pinnedRowLength_def pinnedBlockSize_def)

lemma directionBlock_resetDirection [simp]:
  "directionBlock isUnpack (resetDirection t isUnpack rs) = reset t (directionBlock isUnpack rs)"
  by (simp add: directionBlock_def resetDirection_def)

lemma apply_result:
  "applyPixelStorageBlock t storage isUnpack [] (directionBlock isUnpack rs) = (e, calls, state') \<Longrightarrow>
   applyPixelStorageInternal t storage isUnpack rs =
     (e, calls, if isUnpack then rs\<lparr>unpackPixelStorage := state'\<rparr> else rs\<lparr>packPixelStorage := state'\<rparr>)"
  by (simp add: applyPixelStorageInternal_def directionBlock_def)

lemma fresh_block_default:
  "applyPixelStorageBlock t PixelStorage_default isUnpack []
     (directionBlock isUnpack (fst (snd (RendererState_ctor t emscripten context contextState extensions raw))))
   = (None, [], directionBlock isUnpack (fst (snd (RendererState_ctor t emscripten context contextState extensions raw))))"
  unfolding ctor_block
  by (cases t) (simp_all add: applyPixelStorageBlock_def step_defs PixelStorageState_ctor_def
      PixelStorage_default_def DisengagedValue_def Vector3i_fill_def)

lemma reset_block_all_fields:
  assumes "\<not> MAGNUM_TARGET_GLES2 t" "MAGNUM_TARGET_GLES t \<longrightarrow> isUnpack"
    "disengagedRowLength state = DisengagedValue"
  shows "applyPixelStorageBlock t storage isUnpack [] (reset t state) =
     (None,
      [glPixelStorei (if isUnpack then GL_UNPACK_ALIGNMENT else GL_PACK_ALIGNMENT) (PixelStorage.alignment storage),
       glPixelStorei (if isUnpack then GL_UNPACK_ROW_LENGTH else GL_PACK_ROW_LENGTH) (PixelStorage.rowLength storage),
       glPixelStorei (if isUnpack then GL_UNPACK_IMAGE_HEIGHT else GL_PACK_IMAGE_HEIGHT) (PixelStorage.imageHeight storage),
       glPixelStorei (if isUnpack then GL_UNPACK_SKIP_PIXELS else GL_PACK_SKIP_PIXELS) (x (PixelStorage.skip storage)),
       glPixelStorei (if isUnpack then GL_UNPACK_SKIP_ROWS else GL_PACK_SKIP_ROWS) (y (PixelStorage.skip storage)),
       glPixelStorei (if isUnpack then GL_UNPACK_SKIP_IMAGES else GL_PACK_SKIP_IMAGES) (z (PixelStorage.skip storage))],
      (reset t state)\<lparr>alignment := PixelStorage.alignment storage,
         rowLength := PixelStorage.rowLength storage,
         imageHeight := PixelStorage.imageHeight storage,
         skip := PixelStorage.skip storage\<rparr>)"
  using assms
  by (simp add: applyPixelStorageBlock_def step_defs reset_def Vector3i_fill_def Let_def)

text \<open>
  C2, as the code has it. The constructor of a block fills it with the driver's initial
  values (alignment 4, everything else 0), engaged: the first apply of the all-default
  configuration on a freshly constructed renderer state issues no driver call at all and
  leaves the state as it is, on every target and in both directions. It is \<^verbatim>\<open>reset()\<close>
  that disengages the fields: the first apply after a reset issues exactly one driver
  call per field, six in all and in the declared order, whatever the requested values
  are. This second part is for the targets and directions that set all six fields: the
  desktop target, and the unpack direction of the ES 3 targets.
\<close>

theorem first_apply_fresh_and_after_reset:
  "applyPixelStorageInternal t PixelStorage_default isUnpack
       (fst (snd (RendererState_ctor t emscripten context contextState extensions raw)))
     = (None, [], fst (snd (RendererState_ctor t emscripten context contextState extensions raw)))
 \<and> (\<not> MAGNUM_TARGET_GLES2 t \<and> (MAGNUM_TARGET_GLES t \<longrightarrow> isUnpack) \<longrightarrow>
      fst (applyPixelStorageInternal t storage isUnpack
             (resetDirection t isUnpack
                (fst (snd (RendererState_ctor t emscripten context contextState extensions raw))))) = None
    \<and> fst (snd (applyPixelStorageInternal t storage isUnpack
             (resetDirection t isUnpack
                (fst (snd (RendererState_ctor t emscripten context contextState extensions raw))))))
      = [glPixelStorei (if isUnpack then GL_UNPACK_ALIGNMENT else GL_PACK_ALIGNMENT) (PixelStorage.alignment storage),
         glPixelStorei (if isUnpack then GL_UNPACK_ROW_LENGTH else GL_PACK_ROW_LENGTH) (PixelStorage.rowLength storage),
         glPixelStorei (if isUnpack then GL_UNPACK_IMAGE_HEIGHT else GL_PACK_IMAGE_HEIGHT) (PixelStorage.imageHeight storage),
         glPixelStorei (if isUnpack then GL_UNPACK_SKIP_PIXELS else GL_PACK_SKIP_PIXELS) (x (PixelStorage.skip storage)),
         glPixelStorei (if isUnpack then GL_UNPACK_SKIP_ROWS else GL_PACK_SKIP_ROWS) (y (PixelStorage.skip storage)),
         glPixelStorei (if isUnpack then GL_UNPACK_SKIP_IMAGES else GL_PACK_SKIP_IMAGES) (z (PixelStorage.skip storage))])"
proof -
  let ?rs = "fst (snd (RendererState_ctor t emscripten context contextState extensions raw))"
  have fresh: "applyPixelStorageInternal t PixelStorage_default isUnpack ?rs = (None, [], ?rs)"
    using apply_result [OF fresh_block_default, of t isUnpack emscripten "context" contextState extensions raw]
    by (simp add: directionBlock_def)
  have pin: "\<not> MAGNUM_TARGET_GLES2 t \<Longrightarrow> disengagedRowLength (directionBlock isUnpack ?rs) = DisengagedValue"
    by (simp add: ctor_block Let_def pinnedRowLength_def PixelStorageState_ctor_def)
  show ?thesis
    using fresh reset_block_all_fields [OF _ _ pin, where storage = storage]
    by (simp add: apply_lift)
qed

theorem first_apply_fresh_and_after_reset_witness:
  "applyPixelStorageInternal Desktop PixelStorage_default True
       (fst (snd (RendererState_ctor Desktop 0 (contextWith [] False False) () {} rawRendererState)))
     = (None, [], fst (snd (RendererState_ctor Desktop 0 (contextWith [] False False) () {} rawRendererState)))
 \<and> fst (snd (applyPixelStorageInternal Desktop PixelStorage_default True
             (resetDirection Desktop True
                (fst (snd (RendererState_ctor Desktop 0 (contextWith [] False False) () {} rawRendererState))))))
      = [glPixelStorei GL_UNPACK_ALIGNMENT 4, glPixelStorei GL_UNPACK_ROW_LENGTH 0,
         glPixelStorei GL_UNPACK_IMAGE_HEIGHT 0, glPixelStorei GL_UNPACK_SKIP_PIXELS 0,
         glPixelStorei GL_UNPACK_SKIP_ROWS 0, glPixelStorei GL_UNPACK_SKIP_IMAGES 0]"
  using first_apply_fresh_and_after_reset [of Desktop True 0 "contextWith [] False False" "()" "{}"
      rawRendererState PixelStorage_default]
  by (simp add: PixelStorage_default_def Vector3i_fill_def)

text \<open>
  On a freshly constructed desktop renderer state there is no call per field: the all-default
  configuration issues no call, not six.
\<close>

theorem first_apply_fresh_counterexample:
  "fst (snd (applyPixelStorageInternal Desktop PixelStorage_default True
       (fst (snd (RendererState_ctor Desktop 0 (contextWith [] False False) () {} rawRendererState))))) = []"
  using apply_result [OF fresh_block_default, of Desktop True 0 "contextWith [] False False" "()" "{}"
      rawRendererState]
  by simp

section \<open>The choice of entry points\<close>

text \<open>
  C4, as the code has it. The order between an extension and a core entry point differs
  from one operation to the other. For min sample shading on the ES 3 target, a context
  that supports ES 3.2 gets the core \<^verbatim>\<open>glMinSampleShading\<close>, and the constructor does not
  mark \<^verbatim>\<open>OES_sample_shading\<close> as used, whether the extension is supported or not. For the
  depth clear value and depth range on the desktop target it is the reverse: a context
  that supports \<^verbatim>\<open>NV_depth_buffer_float\<close> gets the extension's entry points instead of
  the core \<^verbatim>\<open>glClearDepth\<close> and \<^verbatim>\<open>glDepthRange\<close>, and the extension is marked as used.
\<close>

theorem resolver_priority:
  "(isVersionSupported context GLES320 \<longrightarrow>
      minSampleShadingImplementation (fst (snd (RendererState_ctor GLES3 emscripten context contextState extensions raw)))
        = Some glMinSampleShading
    \<and> (OES_sample_shading \<in> snd (snd (RendererState_ctor GLES3 emscripten context contextState extensions raw)))
        = (OES_sample_shading \<in> extensions))
 \<and> (isExtensionSupported context NV_depth_buffer_float \<longrightarrow>
      clearDepthImplementation (fst (snd (RendererState_ctor Desktop emscripten context contextState extensions raw)))
        = Some glClearDepthdNV
    \<and> depthRangeImplementation (fst (snd (RendererState_ctor Desktop emscripten context contextState extensions raw)))
        = Some glDepthRangedNV
    \<and> NV_depth_buffer_float \<in> snd (snd (RendererState_ctor Desktop emscripten context contextState extensions raw)))"
  by (simp add: RendererState_ctor_def resolve_defs Let_def split_beta)

theorem resolver_priority_witness:
  "minSampleShadingImplementation
     (fst (snd (RendererState_ctor GLES3 0 (contextWith [OES_sample_shading, NV_depth_buffer_float] True False)
                  () {} rawRendererState))) = Some glMinSampleShading
 \<and> OES_sample_shading \<notin>
     snd (snd (RendererState_ctor GLES3 0 (contextWith [OES_sample_shading, NV_depth_buffer_float] True False)
                 () {} rawRendererState))
 \<and> clearDepthImplementation
     (fst (snd (RendererState_ctor Desktop 0 (contextWith [OES_sample_shading, NV_depth_buffer_float] True False)
                  () {} rawRendererState))) = Some glClearDepthdNV"
  using resolver_priority [of "contextWith [OES_sample_shading, NV_depth_buffer_float] True False" 0 "()" "{}"
      rawRendererState]
  by (simp add: contextWith_def)

text \<open>
  On the desktop target the core \<^verbatim>\<open>glClearDepth\<close> is always there, and a context with
  \<^verbatim>\<open>NV_depth_buffer_float\<close> still gets the extension's entry point, marked as used.
\<close>

theorem resolver_priority_counterexample:
  "clearDepthImplementation
     (fst (snd (RendererState_ctor Desktop 0 (contextWith [NV_depth_buffer_float] False False)
                  () {} rawRendererState))) = Some glClearDepthdNV
 \<and> NV_depth_buffer_float \<in>
     snd (snd (RendererState_ctor Desktop 0 (contextWith [NV_depth_buffer_float] False False)
                 () {} rawRendererState))"
  by (simp add: RendererState_ctor_def resolve_defs Let_def split_beta contextWith_def)

section \<open>Changing one field\<close>

lemma apply_result_set:
  "applyPixelStorageBlock t storage isUnpack [] (directionBlock isUnpack rs) = (e, calls, state') \<Longrightarrow>
   applyPixelStorageInternal t storage isUnpack rs = (e, calls, setDirectionBlock isUnpack state' rs)"
  by (simp add: applyPixelStorageInternal_def directionBlock_def setDirectionBlock_def)

lemma setDirectionBlock_directionBlock:
  "setDirectionBlock isUnpack (directionBlock isUnpack rs) rs = rs"
  by (simp add: setDirectionBlock_def directionBlock_def)





section \<open>The pinned row length\<close>






section \<open>Applying the same configuration twice\<close>

lemma namesWithin_Nil [simp]: "namesWithin L []"
  by (simp add: namesWithin_def)

lemma namesWithin_mono: "namesWithin L calls \<Longrightarrow> set L \<subseteq> set L' \<Longrightarrow> namesWithin L' calls"
  unfolding namesWithin_def by (meson image_mono order_trans)

lemma namesWithin_snoc:
  "namesWithin L calls \<Longrightarrow> p \<notin> set L \<Longrightarrow> namesWithin (L @ [p]) (calls @ [glPixelStorei p v])"
  by (auto simp: namesWithin_def)

lemma namesWithin_keep:
  "namesWithin L calls \<Longrightarrow> namesWithin (L @ [p]) calls"
  by (auto simp: namesWithin_def)

lemma namesWithin_distinct: "namesWithin L calls \<Longrightarrow> distinct (map parameterOf calls)"
  by (simp add: namesWithin_def)

lemma andThen_calls_inv:
  assumes "Q (fst (snd p))" and "\<And>calls state. Q calls \<Longrightarrow> R (fst (snd (f calls state)))"
    and "\<And>calls. Q calls \<Longrightarrow> R calls"
  shows "R (fst (snd (andThen p f)))"
  using assms by (cases p; cases "fst p") auto

lemma fieldNames_distinct: "distinct (fieldNames t u)" and fieldNames_length: "length (fieldNames t u) = 10"
  by (simp_all add: fieldNames_def)

lemma nth_not_in_take: "distinct xs \<Longrightarrow> k < length xs \<Longrightarrow> xs ! k \<notin> set (take k xs)"
  by (metis distinct_take take_Suc_conv_app_nth distinct_append disjoint_iff list.set_intros(1))

lemma step_emits:
  "fst (snd (applyAlignment storage u calls s)) = calls \<or>
     (\<exists>v. fst (snd (applyAlignment storage u calls s)) = calls @ [glPixelStorei (fieldNames t u ! 0) v])"
  "fst (snd (applyRowLength t storage u calls s)) = calls \<or>
     (\<exists>v. fst (snd (applyRowLength t storage u calls s)) = calls @ [glPixelStorei (fieldNames t u ! 1) v])"
  "fst (snd (applyImageHeight t storage u calls s)) = calls \<or>
     (\<exists>v. fst (snd (applyImageHeight t storage u calls s)) = calls @ [glPixelStorei (fieldNames t u ! 2) v])"
  "fst (snd (applySkipPixels storage u calls s)) = calls \<or>
     (\<exists>v. fst (snd (applySkipPixels storage u calls s)) = calls @ [glPixelStorei (fieldNames t u ! 3) v])"
  "fst (snd (applySkipRows storage u calls s)) = calls \<or>
     (\<exists>v. fst (snd (applySkipRows storage u calls s)) = calls @ [glPixelStorei (fieldNames t u ! 4) v])"
  "fst (snd (applySkipImages t storage u calls s)) = calls \<or>
     (\<exists>v. fst (snd (applySkipImages t storage u calls s)) = calls @ [glPixelStorei (fieldNames t u ! 5) v])"
  "fst (snd (applyCompressedBlockWidth bs u calls s)) = calls \<or>
     (\<exists>v. fst (snd (applyCompressedBlockWidth bs u calls s)) = calls @ [glPixelStorei (fieldNames t u ! 6) v])"
  "fst (snd (applyCompressedBlockHeight bs u calls s)) = calls \<or>
     (\<exists>v. fst (snd (applyCompressedBlockHeight bs u calls s)) = calls @ [glPixelStorei (fieldNames t u ! 7) v])"
  "fst (snd (applyCompressedBlockDepth bs u calls s)) = calls \<or>
     (\<exists>v. fst (snd (applyCompressedBlockDepth bs u calls s)) = calls @ [glPixelStorei (fieldNames t u ! 8) v])"
  "fst (snd (applyCompressedBlockDataSize bds u calls s)) = calls \<or>
     (\<exists>v. fst (snd (applyCompressedBlockDataSize bds u calls s)) = calls @ [glPixelStorei (fieldNames t u ! 9) v])"
  by (simp_all add: step_defs cstep_defs fieldNames_def)

lemma names_step:
  assumes "calls' = calls \<or> (\<exists>v. calls' = calls @ [glPixelStorei (fieldNames t u ! k) v])"
    and "namesWithin (take k (fieldNames t u)) calls" and "k < 10"
  shows "namesWithin (take (k + 1) (fieldNames t u)) calls'"
proof -
  have "take (k + 1) (fieldNames t u) = take k (fieldNames t u) @ [fieldNames t u ! k]"
    using assms(3) by (simp add: take_Suc_conv_app_nth fieldNames_length)
  moreover have "fieldNames t u ! k \<notin> set (take k (fieldNames t u))"
    using assms(3) by (simp add: nth_not_in_take fieldNames_distinct fieldNames_length)
  ultimately show ?thesis
    using assms(1,2) by (auto intro: namesWithin_snoc namesWithin_keep)
qed

lemma step_names:
  "namesWithin (take 0 (fieldNames t u)) calls \<Longrightarrow> namesWithin (take 1 (fieldNames t u)) (fst (snd (applyAlignment storage u calls s)))"
  "namesWithin (take 1 (fieldNames t u)) calls \<Longrightarrow> namesWithin (take 2 (fieldNames t u)) (fst (snd (applyRowLength t storage u calls s)))"
  "namesWithin (take 2 (fieldNames t u)) calls \<Longrightarrow> namesWithin (take 3 (fieldNames t u)) (fst (snd (applyImageHeight t storage u calls s)))"
  "namesWithin (take 3 (fieldNames t u)) calls \<Longrightarrow> namesWithin (take 4 (fieldNames t u)) (fst (snd (applySkipPixels storage u calls s)))"
  "namesWithin (take 4 (fieldNames t u)) calls \<Longrightarrow> namesWithin (take 5 (fieldNames t u)) (fst (snd (applySkipRows storage u calls s)))"
  "namesWithin (take 5 (fieldNames t u)) calls \<Longrightarrow> namesWithin (take 6 (fieldNames t u)) (fst (snd (applySkipImages t storage u calls s)))"
  "namesWithin (take 6 (fieldNames t u)) calls \<Longrightarrow> namesWithin (take 7 (fieldNames t u)) (fst (snd (applyCompressedBlockWidth bs u calls s)))"
  "namesWithin (take 7 (fieldNames t u)) calls \<Longrightarrow> namesWithin (take 8 (fieldNames t u)) (fst (snd (applyCompressedBlockHeight bs u calls s)))"
  "namesWithin (take 8 (fieldNames t u)) calls \<Longrightarrow> namesWithin (take 9 (fieldNames t u)) (fst (snd (applyCompressedBlockDepth bs u calls s)))"
  "namesWithin (take 9 (fieldNames t u)) calls \<Longrightarrow> namesWithin (take 10 (fieldNames t u)) (fst (snd (applyCompressedBlockDataSize bds u calls s)))"
  using names_step [OF step_emits(1)]
    names_step [OF step_emits(2)]
    names_step [OF step_emits(3)]
    names_step [OF step_emits(4)]
    names_step [OF step_emits(5)]
    names_step [OF step_emits(6)]
    names_step [OF step_emits(7)]
    names_step [OF step_emits(8)]
    names_step [OF step_emits(9)]
    names_step [OF step_emits(10)]
  by (simp_all add: eval_nat_numeral)

lemma namesWithin_take_mono:
  "namesWithin (take k (fieldNames t u)) calls \<Longrightarrow> k \<le> k' \<Longrightarrow> namesWithin (take k' (fieldNames t u)) calls"
  by (erule namesWithin_mono) (rule set_take_subset_set_take)

lemma plain_block_names:
  "namesWithin (take 6 (fieldNames t u)) (fst (snd (applyPixelStorageBlock t storage u [] s)))"
  unfolding applyPixelStorageBlock_def
proof (rule andThen_calls_inv [where Q = "namesWithin (take 2 (fieldNames t u))"])
  show "namesWithin (take 2 (fieldNames t u))
     (fst (snd (andThen (applyAlignment storage u [] s) (applyRowLength t storage u))))"
  proof (rule andThen_calls_inv [where Q = "namesWithin (take 1 (fieldNames t u))"])
    show "namesWithin (take 1 (fieldNames t u)) (fst (snd (applyAlignment storage u [] s)))"
      by (rule step_names) simp
  qed (erule step_names, erule namesWithin_take_mono, simp)
next
  fix calls state
  assume two: "namesWithin (take 2 (fieldNames t u)) calls"
  show "namesWithin (take 6 (fieldNames t u))
     (fst (snd (andThen (applyImageHeight t storage u calls state)
        (\<lambda>calls state.
            if \<not> MAGNUM_TARGET_GLES2 t
            then andThen (andThen (applySkipPixels storage u calls state) (applySkipRows storage u))
                   (applySkipImages t storage u)
            else (None, calls, state)))))"
  proof (rule andThen_calls_inv [where Q = "namesWithin (take 3 (fieldNames t u))"])
    show "namesWithin (take 3 (fieldNames t u)) (fst (snd (applyImageHeight t storage u calls state)))"
      using two by (rule step_names)
  next
    fix calls state
    assume three: "namesWithin (take 3 (fieldNames t u)) calls"
    have six: "namesWithin (take 6 (fieldNames t u)) calls"
      using three by (rule namesWithin_take_mono) simp
    have "namesWithin (take 6 (fieldNames t u))
      (fst (snd (andThen (andThen (applySkipPixels storage u calls state) (applySkipRows storage u))
                   (applySkipImages t storage u))))"
    proof (rule andThen_calls_inv [where Q = "namesWithin (take 5 (fieldNames t u))"])
      show "namesWithin (take 5 (fieldNames t u))
        (fst (snd (andThen (applySkipPixels storage u calls state) (applySkipRows storage u))))"
      proof (rule andThen_calls_inv [where Q = "namesWithin (take 4 (fieldNames t u))"])
        show "namesWithin (take 4 (fieldNames t u)) (fst (snd (applySkipPixels storage u calls state)))"
          using three by (rule step_names)
      qed (erule step_names, erule namesWithin_take_mono, simp)
    qed (erule step_names, erule namesWithin_take_mono, simp)
    then show "namesWithin (take 6 (fieldNames t u))
      (fst (snd (if \<not> MAGNUM_TARGET_GLES2 t
            then andThen (andThen (applySkipPixels storage u calls state) (applySkipRows storage u))
                   (applySkipImages t storage u)
            else (None, calls, state))))"
      using six by simp
  qed (erule namesWithin_take_mono, simp)
qed (erule namesWithin_take_mono, simp)

lemma compressedBlock_names:
  assumes six: "namesWithin (take 6 (fieldNames t u)) c"
  shows "namesWithin (take 10 (fieldNames t u)) (fst (snd (applyCompressedBlock storage bs bds u c s)))"
proof -
  have ten: "namesWithin (take 10 (fieldNames t u)) c"
    using six by (rule namesWithin_take_mono) simp
  have "namesWithin (take 10 (fieldNames t u))
     (fst (snd (andThen (andThen (andThen (applyCompressedBlockWidth bs u c s)
                                    (applyCompressedBlockHeight bs u))
                           (applyCompressedBlockDepth bs u))
                  (applyCompressedBlockDataSize bds u))))"
  proof (rule andThen_calls_inv [where Q = "namesWithin (take 9 (fieldNames t u))"])
    show "namesWithin (take 9 (fieldNames t u))
      (fst (snd (andThen (andThen (applyCompressedBlockWidth bs u c s)
                            (applyCompressedBlockHeight bs u))
                   (applyCompressedBlockDepth bs u))))"
    proof (rule andThen_calls_inv [where Q = "namesWithin (take 8 (fieldNames t u))"])
      show "namesWithin (take 8 (fieldNames t u))
        (fst (snd (andThen (applyCompressedBlockWidth bs u c s) (applyCompressedBlockHeight bs u))))"
      proof (rule andThen_calls_inv [where Q = "namesWithin (take 7 (fieldNames t u))"])
        show "namesWithin (take 7 (fieldNames t u)) (fst (snd (applyCompressedBlockWidth bs u c s)))"
          using six by (rule step_names)
      qed (erule step_names, erule namesWithin_take_mono, simp)
    qed (erule step_names, erule namesWithin_take_mono, simp)
  qed (erule step_names, erule namesWithin_take_mono, simp)
  with ten show ?thesis
    by (simp add: applyCompressedBlock_def)
qed

lemma compressed_block_names:
  "namesWithin (take 10 (fieldNames t u))
     (fst (snd (applyCompressedPixelStorageBlock t storage bs bds u [] s)))"
proof -
  have plain: "namesWithin (take 10 (fieldNames t u)) (fst (snd (applyPixelStorageBlock t st u [] s)))" for st
    using plain_block_names [of t u st s] by (rule namesWithin_take_mono) simp
  have "namesWithin (take 10 (fieldNames t u))
     (fst (snd (andThen (applyPixelStorageBlock t (PixelStorage.truncate storage) u [] s)
                  (applyCompressedBlock storage bs bds u))))"
    by (rule andThen_calls_inv [where Q = "namesWithin (take 6 (fieldNames t u))"])
       (rule plain_block_names, erule compressedBlock_names, erule namesWithin_take_mono, simp)
  with plain show ?thesis
    by (simp add: applyCompressedPixelStorageBlock_def)
qed

text \<open>After a step has run without failure, the same step finds nothing to do.\<close>

lemma step_settles:
  "settledUpTo 0 t u storage s \<Longrightarrow> fst (applyAlignment storage u c s) = None \<Longrightarrow>
     settledUpTo 1 t u storage (snd (snd (applyAlignment storage u c s)))"
  "settledUpTo 1 t u storage s \<Longrightarrow> fst (applyRowLength t storage u c s) = None \<Longrightarrow>
     settledUpTo 2 t u storage (snd (snd (applyRowLength t storage u c s)))"
  "settledUpTo 2 t u storage s \<Longrightarrow> fst (applyImageHeight t storage u c s) = None \<Longrightarrow>
     settledUpTo 3 t u storage (snd (snd (applyImageHeight t storage u c s)))"
  "settledUpTo 3 t u storage s \<Longrightarrow> fst (applySkipPixels storage u c s) = None \<Longrightarrow>
     settledUpTo 4 t u storage (snd (snd (applySkipPixels storage u c s)))"
  "settledUpTo 4 t u storage s \<Longrightarrow> fst (applySkipRows storage u c s) = None \<Longrightarrow>
     settledUpTo 5 t u storage (snd (snd (applySkipRows storage u c s)))"
  "settledUpTo 5 t u storage s \<Longrightarrow> fst (applySkipImages t storage u c s) = None \<Longrightarrow>
     settledUpTo 6 t u storage (snd (snd (applySkipImages t storage u c s)))"
  by (auto simp: settledUpTo_def step_defs split: if_splits)

lemma step_noop:
  assumes "sentinelFree storage" "settledUpTo 6 t u storage s"
  shows "applyAlignment storage u c s = (None, c, s)"
    and "applyRowLength t storage u c s = (None, c, s)"
    and "applyImageHeight t storage u c s = (None, c, s)"
    and "\<not> MAGNUM_TARGET_GLES2 t \<Longrightarrow> applySkipPixels storage u c s = (None, c, s)"
    and "\<not> MAGNUM_TARGET_GLES2 t \<Longrightarrow> applySkipRows storage u c s = (None, c, s)"
    and "\<not> MAGNUM_TARGET_GLES2 t \<Longrightarrow> applySkipImages t storage u c s = (None, c, s)"
  using assms
  by (auto simp: settledUpTo_def sentinelFree_def step_defs split: if_splits)

lemma settled_noop:
  assumes "sentinelFree storage" "settledUpTo 6 t u storage s"
  shows "applyPixelStorageBlock t storage u c s = (None, c, s)"
  by (simp add: applyPixelStorageBlock_def step_noop [OF assms])

lemma andThen_establish:
  assumes "fst (andThen p f) = None"
    and "fst p = None \<Longrightarrow> Q (snd (snd p))"
    and "\<And>c s. Q s \<Longrightarrow> fst (f c s) = None \<Longrightarrow> R (snd (snd (f c s)))"
  shows "R (snd (snd (andThen p f)))"
  using assms by (cases p; cases "fst p") auto

lemma andThen_success:
  "fst (andThen p f) = None \<Longrightarrow> fst p = None \<and> andThen p f = f (fst (snd p)) (snd (snd p))"
  by (cases p; cases "fst p") auto

lemma settledUpTo_0 [simp]: "settledUpTo 0 t u storage s"
  by (simp add: settledUpTo_def)

lemma apply_settles:
  assumes ok: "fst (applyPixelStorageBlock t storage u c s) = None"
  shows "settledUpTo 6 t u storage (snd (snd (applyPixelStorageBlock t storage u c s)))"
  using ok unfolding applyPixelStorageBlock_def
proof (rule andThen_establish [where Q = "settledUpTo 2 t u storage"])
  assume "fst (andThen (applyAlignment storage u c s) (applyRowLength t storage u)) = None"
  then show "settledUpTo 2 t u storage
     (snd (snd (andThen (applyAlignment storage u c s) (applyRowLength t storage u))))"
  proof (rule andThen_establish [where Q = "settledUpTo 1 t u storage"])
    show "fst (applyAlignment storage u c s) = None \<Longrightarrow>
      settledUpTo 1 t u storage (snd (snd (applyAlignment storage u c s)))"
      by (rule step_settles) simp
  qed (rule step_settles)
next
  fix c s
  assume two: "settledUpTo 2 t u storage s"
  assume "fst (andThen (applyImageHeight t storage u c s)
        (\<lambda>calls state.
            if \<not> MAGNUM_TARGET_GLES2 t
            then andThen (andThen (applySkipPixels storage u calls state) (applySkipRows storage u))
                   (applySkipImages t storage u)
            else (None, calls, state))) = None"
  then show "settledUpTo 6 t u storage (snd (snd (andThen (applyImageHeight t storage u c s)
        (\<lambda>calls state.
            if \<not> MAGNUM_TARGET_GLES2 t
            then andThen (andThen (applySkipPixels storage u calls state) (applySkipRows storage u))
                   (applySkipImages t storage u)
            else (None, calls, state)))))"
  proof (rule andThen_establish [where Q = "settledUpTo 3 t u storage"])
    show "fst (applyImageHeight t storage u c s) = None \<Longrightarrow>
      settledUpTo 3 t u storage (snd (snd (applyImageHeight t storage u c s)))"
      using two by (rule step_settles)
  next
    fix c s
    assume three: "settledUpTo 3 t u storage s"
    assume ok': "fst (if \<not> MAGNUM_TARGET_GLES2 t
            then andThen (andThen (applySkipPixels storage u c s) (applySkipRows storage u))
                   (applySkipImages t storage u)
            else (None, c, s)) = None"
    show "settledUpTo 6 t u storage (snd (snd (if \<not> MAGNUM_TARGET_GLES2 t
            then andThen (andThen (applySkipPixels storage u c s) (applySkipRows storage u))
                   (applySkipImages t storage u)
            else (None, c, s))))"
    proof (cases "MAGNUM_TARGET_GLES2 t")
      case True
      then show ?thesis using three by (simp add: settledUpTo_def)
    next
      case False
      with ok' have "fst (andThen (andThen (applySkipPixels storage u c s) (applySkipRows storage u))
                   (applySkipImages t storage u)) = None"
        by simp
      then have "settledUpTo 6 t u storage
        (snd (snd (andThen (andThen (applySkipPixels storage u c s) (applySkipRows storage u))
                   (applySkipImages t storage u))))"
      proof (rule andThen_establish [where Q = "settledUpTo 5 t u storage"])
        assume "fst (andThen (applySkipPixels storage u c s) (applySkipRows storage u)) = None"
        then show "settledUpTo 5 t u storage
          (snd (snd (andThen (applySkipPixels storage u c s) (applySkipRows storage u))))"
        proof (rule andThen_establish [where Q = "settledUpTo 4 t u storage"])
          show "fst (applySkipPixels storage u c s) = None \<Longrightarrow>
            settledUpTo 4 t u storage (snd (snd (applySkipPixels storage u c s)))"
            using three by (rule step_settles)
        qed (rule step_settles)
      qed (rule step_settles)
      with False show ?thesis by simp
    qed
  qed
qed

lemma applyCompressed_result:
  "applyCompressedPixelStorageBlock t storage blockSize blockDataSize isUnpack [] (directionBlock isUnpack rs)
     = (e, calls, state') \<Longrightarrow>
   applyCompressedPixelStorageInternal t storage blockSize blockDataSize isUnpack rs =
     (e, calls, setDirectionBlock isUnpack state' rs)"
  by (simp add: applyCompressedPixelStorageInternal_def directionBlock_def setDirectionBlock_def)

lemma settledUpTo_plainPart:
  "plainPart s' = plainPart s \<Longrightarrow> settledUpTo k t u storage s' = settledUpTo k t u storage s"
  by (simp add: plainPart_def settledUpTo_def)

lemma csteps_plainPart:
  "plainPart (snd (snd (applyCompressedBlockWidth bs u c s))) = plainPart s"
  "plainPart (snd (snd (applyCompressedBlockHeight bs u c s))) = plainPart s"
  "plainPart (snd (snd (applyCompressedBlockDepth bs u c s))) = plainPart s"
  "plainPart (snd (snd (applyCompressedBlockDataSize bds u c s))) = plainPart s"
  by (simp_all add: cstep_defs plainPart_def)

lemma compressedBlock_plainPart:
  "plainPart (snd (snd (applyCompressedBlock storage bs bds u c s))) = plainPart s"
  unfolding applyCompressedBlock_def
  by (simp add: andThen_state_frame csteps_plainPart)

lemma compressedBlock_values:
  "\<not> shortCircuit storage s \<Longrightarrow>
   compressedBlockSize (snd (snd (applyCompressedBlock storage bs bds u c s))) = bs \<and>
   compressedBlockDataSize (snd (snd (applyCompressedBlock storage bs bds u c s))) = bds"
  by (cases bs; cases "compressedBlockSize s")
     (simp add: applyCompressedBlock_def cstep_defs shortCircuit_def)

lemma compressedBlock_settles:
  "compressedSettled storage bs bds (snd (snd (applyCompressedBlock storage bs bds u c s)))"
proof (cases "shortCircuit storage s")
  case True
  then show ?thesis
    by (simp add: compressedSettled_def applyCompressedBlock_def shortCircuit_def)
next
  case False
  then show ?thesis
    using compressedBlock_values [of storage s bs bds u c] by (simp add: compressedSettled_def)
qed

lemma compressedSettled_noop:
  assumes "compressedSettled storage bs bds s"
    and "x bs \<noteq> DisengagedValue" "y bs \<noteq> DisengagedValue" "z bs \<noteq> DisengagedValue"
    and "bds \<noteq> DisengagedValue"
  shows "applyCompressedBlock storage bs bds u c s = (None, c, s)"
proof (cases "shortCircuit storage s")
  case True
  then show ?thesis
    by (simp add: applyCompressedBlock_def shortCircuit_def)
next
  case False
  with assms(1) have "compressedBlockSize s = bs" "compressedBlockDataSize s = bds"
    by (simp_all add: compressedSettled_def)
  with assms(2-) show ?thesis
    by (simp add: applyCompressedBlock_def cstep_defs)
qed

lemma plain_block_twice:
  assumes "sentinelFree storage"
    and "fst (applyPixelStorageBlock t storage u c s) = None"
  shows "applyPixelStorageBlock t storage u c' (snd (snd (applyPixelStorageBlock t storage u c s)))
     = (None, c', snd (snd (applyPixelStorageBlock t storage u c s)))"
  by (rule settled_noop [OF assms(1) apply_settles [OF assms(2)]])

lemma sentinelFree_default: "sentinelFree PixelStorage_default"
  by (simp add: sentinelFree_def PixelStorage_default_def DisengagedValue_def Vector3i_fill_def)

lemma compressed_block_twice:
  assumes free: "sentinelFree (PixelStorage.truncate storage)"
    and bs: "x bs \<noteq> DisengagedValue" "y bs \<noteq> DisengagedValue" "z bs \<noteq> DisengagedValue"
    and bds: "bds \<noteq> DisengagedValue"
    and ok: "fst (applyCompressedPixelStorageBlock t storage bs bds u c s) = None"
  shows "applyCompressedPixelStorageBlock t storage bs bds u c'
           (snd (snd (applyCompressedPixelStorageBlock t storage bs bds u c s)))
     = (None, c', snd (snd (applyCompressedPixelStorageBlock t storage bs bds u c s)))"
proof (cases "MAGNUM_TARGET_GLES t")
  case True
  with ok have dflt: "storage = CompressedPixelStorage_default"
    by (auto simp: applyCompressedPixelStorageBlock_def split: if_splits)
  with True ok have "fst (applyPixelStorageBlock t PixelStorage_default u c s) = None"
    by (simp add: applyCompressedPixelStorageBlock_def)
  from plain_block_twice [OF sentinelFree_default this, of c'] True dflt show ?thesis
    by (simp add: applyCompressedPixelStorageBlock_def)
next
  case False
  let ?p = "applyPixelStorageBlock t (PixelStorage.truncate storage) u c s"
  let ?s1 = "snd (snd ?p)"
  let ?r = "applyCompressedBlock storage bs bds u (fst (snd ?p)) ?s1"
  let ?s2 = "snd (snd ?r)"
  from False ok have pass: "bs \<noteq> Vector3i_fill 0 \<and> bds \<noteq> 0"
    by (auto simp: applyCompressedPixelStorageBlock_def split: if_splits)
  with False ok have "fst (andThen ?p (applyCompressedBlock storage bs bds u)) = None"
    by (simp add: applyCompressedPixelStorageBlock_def)
  from andThen_success [OF this] have p_ok: "fst ?p = None"
    and eq: "andThen ?p (applyCompressedBlock storage bs bds u) = ?r"
    by simp_all
  have first: "applyCompressedPixelStorageBlock t storage bs bds u c s = ?r"
    using False pass eq by (simp add: applyCompressedPixelStorageBlock_def)
  have "settledUpTo 6 t u (PixelStorage.truncate storage) ?s1"
    by (rule apply_settles [OF p_ok])
  then have "settledUpTo 6 t u (PixelStorage.truncate storage) ?s2"
    by (simp add: settledUpTo_plainPart [OF compressedBlock_plainPart])
  then have plain: "applyPixelStorageBlock t (PixelStorage.truncate storage) u c' ?s2 = (None, c', ?s2)"
    by (rule settled_noop [OF free])
  have "compressedSettled storage bs bds ?s2"
    by (rule compressedBlock_settles)
  then have comp: "applyCompressedBlock storage bs bds u c' ?s2 = (None, c', ?s2)"
    using bs bds by (rule compressedSettled_noop)
  show ?thesis
    unfolding first
    using False pass plain comp by (simp add: applyCompressedPixelStorageBlock_def)
qed

text \<open>
  A failed step leaves calls and block as they are and fails again on the same block, so
  the second apply stops where the first one did, after steps that find nothing to do.
\<close>

lemma step_noop_upto:
  assumes "sentinelFree storage" "settledUpTo k t u storage s"
  shows "1 \<le> k \<Longrightarrow> applyAlignment storage u c s = (None, c, s)"
    and "2 \<le> k \<Longrightarrow> applyRowLength t storage u c s = (None, c, s)"
    and "3 \<le> k \<Longrightarrow> applyImageHeight t storage u c s = (None, c, s)"
    and "4 \<le> k \<Longrightarrow> \<not> MAGNUM_TARGET_GLES2 t \<Longrightarrow> applySkipPixels storage u c s = (None, c, s)"
    and "5 \<le> k \<Longrightarrow> \<not> MAGNUM_TARGET_GLES2 t \<Longrightarrow> applySkipRows storage u c s = (None, c, s)"
  using assms
  by (auto simp: settledUpTo_def sentinelFree_def step_defs split: if_splits)

lemma step_never_fails:
  "fst (applyAlignment storage u c s) = None"
  "fst (applySkipPixels storage u c s) = None"
  "fst (applySkipRows storage u c s) = None"
  by (simp_all add: step_defs)

lemma step_failure:
  "fst (applyRowLength t storage u c s) = Some e \<Longrightarrow> applyRowLength t storage u c' s = (Some e, c', s)"
  "fst (applyImageHeight t storage u c s) = Some e \<Longrightarrow> applyImageHeight t storage u c' s = (Some e, c', s)"
  "fst (applySkipImages t storage u c s) = Some e \<Longrightarrow> applySkipImages t storage u c' s = (Some e, c', s)"
  by (auto simp: step_defs split: if_splits)

lemma result_cases:
  obtains (ok) c1 s1 where "p = (None, c1, s1)" | (failed) e c1 s1 where "p = (Some e, c1, s1)"
  by (cases p; cases "fst p") auto

lemma plain_block_twice_any:
  assumes free: "sentinelFree storage"
  shows "applyPixelStorageBlock t storage u c' (snd (snd (applyPixelStorageBlock t storage u c s)))
     = (fst (applyPixelStorageBlock t storage u c s), c',
        snd (snd (applyPixelStorageBlock t storage u c s)))"
proof -
  obtain c1 s1 where a: "applyAlignment storage u c s = (None, c1, s1)"
    using step_never_fails(1) [of storage u c s] by (cases "applyAlignment storage u c s") auto
  have s1: "settledUpTo 1 t u storage s1"
    using step_settles(1) [of t u storage s c] a by simp
  show ?thesis
  proof (cases "applyRowLength t storage u c1 s1" rule: result_cases)
    case (failed e c2 s2)
    from step_failure(1) [of t storage u c1 s1 e] failed
    have again: "applyRowLength t storage u k s1 = (Some e, k, s1)" for k by simp
    have first: "applyPixelStorageBlock t storage u c s = (Some e, c1, s1)"
      by (simp add: applyPixelStorageBlock_def a again)
    show ?thesis
      unfolding first
      by (simp add: applyPixelStorageBlock_def step_noop_upto [OF free s1] again)
  next
    case (ok c2 s2)
    have s2: "settledUpTo 2 t u storage s2"
      using step_settles(2) [OF s1, of c1] ok by simp
    show ?thesis
    proof (cases "applyImageHeight t storage u c2 s2" rule: result_cases)
      case (failed e c3 s3)
      from step_failure(2) [of t storage u c2 s2 e] failed
      have again: "applyImageHeight t storage u k s2 = (Some e, k, s2)" for k by simp
      have first: "applyPixelStorageBlock t storage u c s = (Some e, c2, s2)"
        by (simp add: applyPixelStorageBlock_def a ok again)
      show ?thesis
        unfolding first
        by (simp add: applyPixelStorageBlock_def step_noop_upto [OF free s2] again)
    next
      case ok3: (ok c3 s3)
      have s3: "settledUpTo 3 t u storage s3"
        using step_settles(3) [OF s2, of c2] ok3 by simp
      show ?thesis
      proof (cases "MAGNUM_TARGET_GLES2 t")
        case True
        have first: "applyPixelStorageBlock t storage u c s = (None, c3, s3)"
          by (simp add: applyPixelStorageBlock_def a ok ok3 True)
        show ?thesis
          unfolding first
          by (simp add: applyPixelStorageBlock_def step_noop_upto [OF free s3] True)
      next
        case False
        obtain c4 s4 where p: "applySkipPixels storage u c3 s3 = (None, c4, s4)"
          using step_never_fails(2) [of storage u c3 s3]
          by (cases "applySkipPixels storage u c3 s3") auto
        have s4: "settledUpTo 4 t u storage s4"
          using step_settles(4) [OF s3, of c3] p by simp
        obtain c5 s5 where q: "applySkipRows storage u c4 s4 = (None, c5, s5)"
          using step_never_fails(3) [of storage u c4 s4]
          by (cases "applySkipRows storage u c4 s4") auto
        have s5: "settledUpTo 5 t u storage s5"
          using step_settles(5) [OF s4, of c4] q by simp
        have first0: "applyPixelStorageBlock t storage u c s = applySkipImages t storage u c5 s5"
          by (simp add: applyPixelStorageBlock_def a ok ok3 False p q)
        show ?thesis
        proof (cases "applySkipImages t storage u c5 s5" rule: result_cases)
          case (failed e c6 s6)
          from step_failure(3) [of t storage u c5 s5 e] failed
          have again: "applySkipImages t storage u k s5 = (Some e, k, s5)" for k by simp
          show ?thesis
            unfolding first0 again
            by (simp add: applyPixelStorageBlock_def step_noop_upto [OF free s5] again False)
        next
          case ok6: (ok c6 s6)
          then have "fst (applyPixelStorageBlock t storage u c s) = None"
            by (simp add: first0)
          with plain_block_twice [OF free, of t u c s c'] show ?thesis by simp
        qed
      qed
    qed
  qed
qed

lemma compressed_block_twice_any:
  assumes free: "sentinelFree (PixelStorage.truncate storage)"
    and bs: "x bs \<noteq> DisengagedValue" "y bs \<noteq> DisengagedValue" "z bs \<noteq> DisengagedValue"
    and bds: "bds \<noteq> DisengagedValue"
  shows "applyCompressedPixelStorageBlock t storage bs bds u c'
           (snd (snd (applyCompressedPixelStorageBlock t storage bs bds u c s)))
     = (fst (applyCompressedPixelStorageBlock t storage bs bds u c s), c',
        snd (snd (applyCompressedPixelStorageBlock t storage bs bds u c s)))"
proof (cases "fst (applyCompressedPixelStorageBlock t storage bs bds u c s)")
  case None
  with compressed_block_twice [OF free bs bds, of t u c s c'] show ?thesis by simp
next
  case (Some e)
  show ?thesis
  proof (cases "MAGNUM_TARGET_GLES t")
    case True
    then show ?thesis
      using plain_block_twice_any [OF sentinelFree_default, of t u c' c s]
      by (simp add: applyCompressedPixelStorageBlock_def)
  next
    case False
    then have t: "t = Desktop" by (cases t) simp_all
    have "fst (andThen (applyPixelStorageBlock Desktop (PixelStorage.truncate storage) u c s)
               (applyCompressedBlock storage bs bds u)) = None"
      by (intro andThen_no_failure plain_Desktop_no_failure compressedBlock_no_failure)
    with Some have "\<not> (bs \<noteq> Vector3i_fill 0 \<and> bds \<noteq> 0)"
      by (auto simp: applyCompressedPixelStorageBlock_def t split: if_splits)
    then show ?thesis
      by (simp add: applyCompressedPixelStorageBlock_def t)
  qed
qed

text \<open>
  C1, as the code has it. The sentinel is a value of the same type as the requested
  values, and a request for the sentinel itself is cached as "disengaged". For every
  target, direction and renderer state, and every requested configuration none of whose
  values is the sentinel: the first apply sets no driver parameter twice, and a second
  apply of the same configuration right after it issues no driver call and leaves the
  renderer state as it is; it ends as the first one did, with the same failed assertion
  if the first one failed one. The same holds for the compressed apply, when the supplied
  block size components and block byte size are not the sentinel either.
\<close>

theorem apply_twice:
  "(sentinelFree storage \<longrightarrow>
      applyPixelStorageInternal t storage isUnpack
          (snd (snd (applyPixelStorageInternal t storage isUnpack rs)))
        = (fst (applyPixelStorageInternal t storage isUnpack rs), [],
           snd (snd (applyPixelStorageInternal t storage isUnpack rs)))
    \<and> distinct (map parameterOf (fst (snd (applyPixelStorageInternal t storage isUnpack rs)))))
 \<and> (sentinelFree (PixelStorage.truncate cstorage) \<and>
      x blockSize \<noteq> DisengagedValue \<and> y blockSize \<noteq> DisengagedValue \<and>
      z blockSize \<noteq> DisengagedValue \<and> blockDataSize \<noteq> DisengagedValue \<longrightarrow>
      applyCompressedPixelStorageInternal t cstorage blockSize blockDataSize isUnpack
          (snd (snd (applyCompressedPixelStorageInternal t cstorage blockSize blockDataSize isUnpack rs)))
        = (fst (applyCompressedPixelStorageInternal t cstorage blockSize blockDataSize isUnpack rs), [],
           snd (snd (applyCompressedPixelStorageInternal t cstorage blockSize blockDataSize isUnpack rs)))
    \<and> distinct (map parameterOf
          (fst (snd (applyCompressedPixelStorageInternal t cstorage blockSize blockDataSize isUnpack rs)))))"
proof (intro conjI impI)
  let ?rs' = "snd (snd (applyPixelStorageInternal t storage isUnpack rs))"
  assume "sentinelFree storage"
  then have "applyPixelStorageBlock t storage isUnpack [] (directionBlock isUnpack ?rs')
      = (fst (applyPixelStorageInternal t storage isUnpack rs), [], directionBlock isUnpack ?rs')"
    using plain_block_twice_any [of storage t isUnpack "[]" "[]" "directionBlock isUnpack rs"]
    by (simp add: apply_lift)
  from apply_result_set [OF this]
  show "applyPixelStorageInternal t storage isUnpack ?rs'
      = (fst (applyPixelStorageInternal t storage isUnpack rs), [], ?rs')"
    by (simp only: setDirectionBlock_directionBlock)
next
  show "distinct (map parameterOf (fst (snd (applyPixelStorageInternal t storage isUnpack rs))))"
    using plain_block_names [of t isUnpack storage "directionBlock isUnpack rs"]
    by (simp add: apply_lift namesWithin_distinct)
next
  let ?rs' = "snd (snd (applyCompressedPixelStorageInternal t cstorage blockSize blockDataSize isUnpack rs))"
  assume "sentinelFree (PixelStorage.truncate cstorage) \<and>
      x blockSize \<noteq> DisengagedValue \<and> y blockSize \<noteq> DisengagedValue \<and>
      z blockSize \<noteq> DisengagedValue \<and> blockDataSize \<noteq> DisengagedValue"
  then have "applyCompressedPixelStorageBlock t cstorage blockSize blockDataSize isUnpack []
        (directionBlock isUnpack ?rs')
      = (fst (applyCompressedPixelStorageInternal t cstorage blockSize blockDataSize isUnpack rs), [],
         directionBlock isUnpack ?rs')"
    using compressed_block_twice_any [of cstorage blockSize blockDataSize t isUnpack "[]" "[]"
        "directionBlock isUnpack rs"]
    by (simp add: applyCompressed_lift)
  from applyCompressed_result [OF this]
  show "applyCompressedPixelStorageInternal t cstorage blockSize blockDataSize isUnpack ?rs'
      = (fst (applyCompressedPixelStorageInternal t cstorage blockSize blockDataSize isUnpack rs), [], ?rs')"
    by (simp only: setDirectionBlock_directionBlock)
next
  show "distinct (map parameterOf
          (fst (snd (applyCompressedPixelStorageInternal t cstorage blockSize blockDataSize isUnpack rs))))"
    using compressed_block_names [of t isUnpack cstorage blockSize blockDataSize "directionBlock isUnpack rs"]
    by (simp add: applyCompressed_lift namesWithin_distinct)
qed

theorem apply_twice_witness:
  "applyPixelStorageInternal Desktop (PixelStorage_default\<lparr>PixelStorage.rowLength := 4\<rparr>) True
     (snd (snd (applyPixelStorageInternal Desktop (PixelStorage_default\<lparr>PixelStorage.rowLength := 4\<rparr>) True
        (resetDirection Desktop True (constructed Desktop (contextWith [] False False))))))
   = (None, [],
      snd (snd (applyPixelStorageInternal Desktop (PixelStorage_default\<lparr>PixelStorage.rowLength := 4\<rparr>) True
        (resetDirection Desktop True (constructed Desktop (contextWith [] False False))))))
 \<and> applyPixelStorageInternal GLES3 (PixelStorage_default\<lparr>PixelStorage.skip := \<lparr>x = 1, y = 2, z = 3\<rparr>\<rparr>) False
     (snd (snd (applyPixelStorageInternal GLES3
        (PixelStorage_default\<lparr>PixelStorage.skip := \<lparr>x = 1, y = 2, z = 3\<rparr>\<rparr>) False
        (constructed GLES3 (contextWith [] False False)))))
   = (fst (applyPixelStorageInternal GLES3
        (PixelStorage_default\<lparr>PixelStorage.skip := \<lparr>x = 1, y = 2, z = 3\<rparr>\<rparr>) False
        (constructed GLES3 (contextWith [] False False))), [],
      snd (snd (applyPixelStorageInternal GLES3
        (PixelStorage_default\<lparr>PixelStorage.skip := \<lparr>x = 1, y = 2, z = 3\<rparr>\<rparr>) False
        (constructed GLES3 (contextWith [] False False)))))
 \<and> applyCompressedPixelStorageInternal Desktop CompressedPixelStorage_default \<lparr>x = 4, y = 4, z = 1\<rparr> 8 True
     (snd (snd (applyCompressedPixelStorageInternal Desktop CompressedPixelStorage_default
        \<lparr>x = 4, y = 4, z = 1\<rparr> 8 True
        (resetDirection Desktop True (constructed Desktop (contextWith [] False False))))))
   = (None, [],
      snd (snd (applyCompressedPixelStorageInternal Desktop CompressedPixelStorage_default
        \<lparr>x = 4, y = 4, z = 1\<rparr> 8 True
        (resetDirection Desktop True (constructed Desktop (contextWith [] False False))))))"
  using apply_twice [of "PixelStorage_default\<lparr>PixelStorage.rowLength := 4\<rparr>" Desktop True
      "resetDirection Desktop True (constructed Desktop (contextWith [] False False))"
      CompressedPixelStorage_default "\<lparr>x = 4, y = 4, z = 1\<rparr>" 8]
    apply_twice [of "PixelStorage_default\<lparr>PixelStorage.skip := \<lparr>x = 1, y = 2, z = 3\<rparr>\<rparr>" GLES3 False
      "constructed GLES3 (contextWith [] False False)"
      CompressedPixelStorage_default "\<lparr>x = 4, y = 4, z = 1\<rparr>" 8]
  by (simp add: sentinelFree_def PixelStorage_default_def CompressedPixelStorage_default_def
      PixelStorage.truncate_def DisengagedValue_def Vector3i_fill_def apply_lift(1)
      plain_Desktop_no_failure desktop_compressed_failure)

text \<open>
  A request for the sentinel as alignment is applied again by the second apply: the
  first one caches the sentinel, which the second one reads as "disengaged".
\<close>

theorem apply_twice_counterexample:
  "fst (snd (applyPixelStorageInternal Desktop
        (PixelStorage_default\<lparr>PixelStorage.alignment := DisengagedValue\<rparr>) True
        (snd (snd (applyPixelStorageInternal Desktop
           (PixelStorage_default\<lparr>PixelStorage.alignment := DisengagedValue\<rparr>) True
           (constructed Desktop (contextWith [] False False)))))))
   = [glPixelStorei GL_UNPACK_ALIGNMENT DisengagedValue]"
proof -
  let ?rs = "constructed Desktop (contextWith [] False False)"
  let ?st = "PixelStorage_default\<lparr>PixelStorage.alignment := DisengagedValue\<rparr>"
  have b: "directionBlock True ?rs =
    \<lparr>alignment = 4, rowLength = 0, imageHeight = 0, skip = Vector3i_fill 0,
      compressedBlockSize = Vector3i_fill 0, compressedBlockDataSize = 0,
      disengagedRowLength = - 1, disengagedBlockSize = 0\<rparr>"
    by (simp add: ctor_defs directionBlock_def)
  have first: "snd (snd (applyPixelStorageBlock Desktop ?st True [] (directionBlock True ?rs)))
      = (directionBlock True ?rs)\<lparr>alignment := DisengagedValue\<rparr>"
    unfolding b
    by (simp add: applyPixelStorageBlock_def step_defs PixelStorage_default_def DisengagedValue_def
        Vector3i_fill_def)
  have "fst (snd (applyPixelStorageBlock Desktop ?st True []
                    ((directionBlock True ?rs)\<lparr>alignment := DisengagedValue\<rparr>)))
      = [glPixelStorei GL_UNPACK_ALIGNMENT DisengagedValue]"
    unfolding b
    by (simp add: applyPixelStorageBlock_def step_defs PixelStorage_default_def DisengagedValue_def
        Vector3i_fill_def)
  then show ?thesis
    by (simp only: apply_lift first)
qed

section \<open>Disengaged fields and writes\<close>

lemma writtenSince_simps [simp]:
  "writtenSince p [] = False"
  "writtenSince p (calls @ [glPixelStorei q v]) = (p = q \<or> writtenSince p calls)"
  by (auto simp: writtenSince_def)

















end
